theory Spec2Isabelle
  imports Main "HOL-Library.Sublist"
begin

section \<open>JavaScript values and string primitives\<close>

text \<open>
  DocuAPI turns a decoded OpenAPI document into a static HTML page, a search index and a
  stylesheet (\<^verbatim>\<open>src/generator.js\<close>, \<^verbatim>\<open>src/parser.js\<close>).  Strings are modelled as
  \<^typ>\<open>string\<close>; the embedding covers ASCII text, on which \<^verbatim>\<open>toLowerCase\<close>,
  \<^verbatim>\<open>toUpperCase\<close> and the regular expressions of the source act character by character.
  A property that may be missing has an \<^typ>\<open>'a option\<close> type, \<^term>\<open>None\<close> standing for
  JavaScript's \<^verbatim>\<open>undefined\<close>.
\<close>

text \<open>Truthiness of an optional string: \<^verbatim>\<open>undefined\<close> and the empty string are falsy.\<close>

definition truthy :: "string option \<Rightarrow> bool" where
  \<open>truthy v = (case v of None \<Rightarrow> False | Some s \<Rightarrow> s \<noteq> [])\<close>

text \<open>\<^verbatim>\<open>a || b\<close> for two optional strings.\<close>

definition orElse :: "string option \<Rightarrow> string option \<Rightarrow> string option" where
  \<open>orElse a b = (if truthy a then a else b)\<close>

text \<open>\<^verbatim>\<open>a || d\<close> where the right operand \<open>d\<close> is a string.\<close>

definition orStr :: "string option \<Rightarrow> string \<Rightarrow> string" where
  \<open>orStr a d = (case a of None \<Rightarrow> d | Some s \<Rightarrow> if s \<noteq> [] then s else d)\<close>

text \<open>\<^verbatim>\<open>v ? f(v) : ''\<close> for an optional string \<open>v\<close>.\<close>

definition whenStr :: "string option \<Rightarrow> (string \<Rightarrow> string) \<Rightarrow> string" where
  \<open>whenStr v f = (case v of None \<Rightarrow> [] | Some s \<Rightarrow> if s \<noteq> [] then f s else [])\<close>

text \<open>\<^verbatim>\<open>String.prototype.toLowerCase\<close> and \<^verbatim>\<open>toUpperCase\<close> on ASCII letters.\<close>

definition lowerChar :: "char \<Rightarrow> char" where
  \<open>lowerChar c =
     (case map_of (zip ''ABCDEFGHIJKLMNOPQRSTUVWXYZ'' ''abcdefghijklmnopqrstuvwxyz'') c of
        None \<Rightarrow> c | Some l \<Rightarrow> l)\<close>

definition upperChar :: "char \<Rightarrow> char" where
  \<open>upperChar c =
     (case map_of (zip ''abcdefghijklmnopqrstuvwxyz'' ''ABCDEFGHIJKLMNOPQRSTUVWXYZ'') c of
        None \<Rightarrow> c | Some u \<Rightarrow> u)\<close>

definition toLowerCase :: "string \<Rightarrow> string" where
  \<open>toLowerCase s = map lowerChar s\<close>

definition toUpperCase :: "string \<Rightarrow> string" where
  \<open>toUpperCase s = map upperChar s\<close>

text \<open>
  \<^verbatim>\<open>str.replace(/re/g, rep)\<close> for a regular expression that matches single characters:
  every character satisfying \<open>matches\<close> is replaced by \<open>rep\<close>.
\<close>

definition replaceAll :: "(char \<Rightarrow> bool) \<Rightarrow> string \<Rightarrow> string \<Rightarrow> string" where
  \<open>replaceAll matches rep s = concat (map (\<lambda>c. if matches c then rep else [c]) s)\<close>

text \<open>\<^verbatim>\<open>str.startsWith(p)\<close>.\<close>

definition startsWith :: "string \<Rightarrow> string \<Rightarrow> bool" where
  \<open>startsWith s p = (take (length p) s = p)\<close>

text \<open>\<^verbatim>\<open>str.split(sep)\<close> for a separator of one character.\<close>

fun split :: "char \<Rightarrow> string \<Rightarrow> string list" where
  \<open>split sep [] = [[]]\<close>
| \<open>split sep (c # cs) =
     (if c = sep then [] # split sep cs
      else (case split sep cs of [] \<Rightarrow> [[c]] | x # xs \<Rightarrow> (c # x) # xs))\<close>

text \<open>\<^verbatim>\<open>Array.prototype.pop\<close>, for its value: the last element, \<^verbatim>\<open>undefined\<close> on an empty array.\<close>

definition pop :: "'a list \<Rightarrow> 'a option" where
  \<open>pop xs = (if xs = [] then None else Some (last xs))\<close>

section \<open>JSON values and \<^verbatim>\<open>JSON.stringify\<close>\<close>

text \<open>
  Schemas are passed through as decoded JSON.  Numbers are integers here (those a double
  holds exactly and prints without an exponent); an object is the list of its entries in
  iteration order.
\<close>

datatype json =
    JNull
  | JBool bool
  | JNum int
  | JStr string
  | JArr "json list"
  | JObj "(string \<times> json) list"

fun jsonTruthy :: "json \<Rightarrow> bool" where
  \<open>jsonTruthy JNull = False\<close>
| \<open>jsonTruthy (JBool b) = b\<close>
| \<open>jsonTruthy (JNum n) = (n \<noteq> 0)\<close>
| \<open>jsonTruthy (JStr s) = (s \<noteq> [])\<close>
| \<open>jsonTruthy (JArr xs) = True\<close>
| \<open>jsonTruthy (JObj kvs) = True\<close>

text \<open>\<^verbatim>\<open>v || d\<close> and \<^verbatim>\<open>v ? f(v) : ''\<close> for an optional JSON value \<open>v\<close>.\<close>

definition orJson :: "json option \<Rightarrow> json \<Rightarrow> json" where
  \<open>orJson v d = (case v of None \<Rightarrow> d | Some j \<Rightarrow> if jsonTruthy j then j else d)\<close>

definition whenJson :: "json option \<Rightarrow> (json \<Rightarrow> string) \<Rightarrow> string" where
  \<open>whenJson v f = (case v of None \<Rightarrow> [] | Some j \<Rightarrow> if jsonTruthy j then f j else [])\<close>

fun showNat :: "nat \<Rightarrow> string" where
  \<open>showNat n =
     (if n < 10 then [''0123456789'' ! n]
      else showNat (n div 10) @ [''0123456789'' ! (n mod 10)])\<close>

declare showNat.simps [simp del]

definition showInt :: "int \<Rightarrow> string" where
  \<open>showInt i = (if i < 0 then ''-'' @ showNat (nat (- i)) else showNat (nat i))\<close>

text \<open>
  The string quoting of \<^verbatim>\<open>JSON.stringify\<close>: quotation mark and backslash are escaped,
  control characters are written with their short escape or as \<^verbatim>\<open>\u00XX\<close>.
\<close>

definition quoteChar :: "char \<Rightarrow> string" where
  \<open>quoteChar c =
     (if c = CHR 0x22 then [CHR 0x5C, CHR 0x22]
      else if c = CHR 0x5C then [CHR 0x5C, CHR 0x5C]
      else if c = CHR 0x08 then [CHR 0x5C, CHR ''b'']
      else if c = CHR 0x09 then [CHR 0x5C, CHR ''t'']
      else if c = CHR 0x0A then [CHR 0x5C, CHR ''n'']
      else if c = CHR 0x0C then [CHR 0x5C, CHR ''f'']
      else if c = CHR 0x0D then [CHR 0x5C, CHR ''r'']
      else if (of_char c :: nat) < 32
        then [CHR 0x5C, CHR ''u'', CHR ''0'', CHR ''0'',
              ''0123456789abcdef'' ! (of_char c div 16), ''0123456789abcdef'' ! (of_char c mod 16)]
      else [c])\<close>

definition quoteJSONString :: "string \<Rightarrow> string" where
  \<open>quoteJSONString s = [CHR 0x22] @ concat (map quoteChar s) @ [CHR 0x22]\<close>

text \<open>\<^verbatim>\<open>Array.prototype.join(sep)\<close>.\<close>

fun join :: "string \<Rightarrow> string list \<Rightarrow> string" where
  \<open>join sep [] = []\<close>
| \<open>join sep [x] = x\<close>
| \<open>join sep (x # y # ys) = x @ sep @ join sep (y # ys)\<close>

text \<open>
  Serialisation with a gap of two spaces; \<open>indent\<close> is the indentation of the enclosing
  value.
\<close>

fun serialize :: "string \<Rightarrow> json \<Rightarrow> string" where
  \<open>serialize indent JNull = ''null''\<close>
| \<open>serialize indent (JBool b) = (if b then ''true'' else ''false'')\<close>
| \<open>serialize indent (JNum n) = showInt n\<close>
| \<open>serialize indent (JStr s) = quoteJSONString s\<close>
| \<open>serialize indent (JArr xs) =
     (if xs = [] then ''[]''
      else ''[\<newline>'' @ indent @ ''  '' @
           join ('',\<newline>'' @ indent @ ''  '') (map (serialize (indent @ ''  '')) xs) @
           ''\<newline>'' @ indent @ '']'')\<close>
| \<open>serialize indent (JObj kvs) =
     (if kvs = [] then ''{}''
      else ''{\<newline>'' @ indent @ ''  '' @
           join ('',\<newline>'' @ indent @ ''  '')
             (map (\<lambda>(k, v). quoteJSONString k @ '': '' @ serialize (indent @ ''  '') v) kvs) @
           ''\<newline>'' @ indent @ ''}'')\<close>

text \<open>\<^verbatim>\<open>JSON.stringify(value, null, 2)\<close>.\<close>

definition JSON_stringify :: "json \<Rightarrow> string" where
  \<open>JSON_stringify v = serialize [] v\<close>

section \<open>The decoded OpenAPI document\<close>

text \<open>
  The shapes the renderer reads, as an OpenAPI document has them: a text field holds a
  string, \<^verbatim>\<open>required\<close> a boolean, \<^verbatim>\<open>parameters\<close> an array, and every other field an
  object.  A field may be missing.  A document with a value of another kind in one of these
  places (a number for a summary, \<^verbatim>\<open>null\<close> for an operation) is outside the model.  A
  mapping is the list of its entries in the iteration order of \<^verbatim>\<open>Object.entries\<close>;
  its keys are pairwise distinct.  The field \<^verbatim>\<open>in\<close> of a parameter is written \<open>in'\<close>.
\<close>

record contact =
  email :: "string option"
  url :: "string option"

record info =
  title :: "string option"
  version :: "string option"
  description :: "string option"
  contact :: "contact option"

record param_schema =
  type :: "string option"

record parameter =
  name :: "string option"
  in' :: "string option"
  required :: "bool option"
  schema :: "param_schema option"
  description :: "string option"

record media_type =
  schema :: "json option"

record response =
  description :: "string option"
  content :: "(string \<times> media_type) list option"

record request_body =
  content :: "(string \<times> media_type) list option"

record operation =
  summary :: "string option"
  description :: "string option"
  parameters :: "parameter list option"
  requestBody :: "request_body option"
  responses :: "(string \<times> response) list option"

record components =
  schemas :: "(string \<times> json) list option"

record spec =
  openapi :: "string option"
  swagger :: "string option"
  info :: "info option"
  paths :: "(string \<times> (string \<times> operation) list) list option"
  components :: "components option"

text \<open>The options \<^verbatim>\<open>generateDocs\<close> passes to \<^verbatim>\<open>generateHTML\<close> (generator.js lines 34-42).\<close>

record options =
  theme :: string
  logo :: "string option"
  favicon :: "string option"
  tryItOut :: bool
  search :: bool
  toc :: bool
  title :: string

text \<open>\<^verbatim>\<open>Object.entries(spec.paths || {})\<close> and \<^verbatim>\<open>Object.entries(details.responses || {})\<close>.\<close>

definition pathEntries :: "spec \<Rightarrow> (string \<times> (string \<times> operation) list) list" where
  \<open>pathEntries spec = (case spec.paths spec of None \<Rightarrow> [] | Some ps \<Rightarrow> ps)\<close>

definition responseEntries :: "operation \<Rightarrow> (string \<times> response) list" where
  \<open>responseEntries details = (case operation.responses details of None \<Rightarrow> [] | Some rs \<Rightarrow> rs)\<close>

text \<open>\<^verbatim>\<open>content?.['application/json']?.schema\<close>.\<close>

definition jsonSchema :: "(string \<times> media_type) list option \<Rightarrow> json option" where
  \<open>jsonSchema content' =
     Option.bind (Option.bind content' (\<lambda>c. map_of c ''application/json'')) media_type.schema\<close>

section \<open>Escaping and slugs\<close>

text \<open>generator.js lines 421-429.  The five replacements run one after the other.\<close>

definition escapeHtml :: "string option \<Rightarrow> string" where
  \<open>escapeHtml str =
     (if \<not> truthy str then []
      else case str of None \<Rightarrow> [] | Some s \<Rightarrow>
        replaceAll (\<lambda>c. c = CHR 0x27) ''&#039;''
          (replaceAll (\<lambda>c. c = CHR 0x22) ''&quot;''
            (replaceAll (\<lambda>c. c = CHR ''>'') ''&gt;''
              (replaceAll (\<lambda>c. c = CHR ''<'') ''&lt;''
                (replaceAll (\<lambda>c. c = CHR ''&'') ''&amp;'' s)))))\<close>

text \<open>generator.js lines 431-433; \<open>inClass\<close> is the character class \<^verbatim>\<open>[a-z0-9]\<close>.\<close>

definition inClass :: "char \<Rightarrow> bool" where
  \<open>inClass c = (c \<in> set ''abcdefghijklmnopqrstuvwxyz0123456789'')\<close>

definition slugify :: "string \<Rightarrow> string" where
  \<open>slugify str = replaceAll (\<lambda>c. \<not> inClass c) ''-'' (toLowerCase str)\<close>

section \<open>The renderer\<close>

text \<open>
  \<^verbatim>\<open>generateHTML\<close> is one template literal with nested templates.  Each nested template
  is a definition of its own; the text between the holes is copied line by line.
\<close>

text \<open>generator.js line 194: the class of a response block.\<close>

definition responseClass :: "string \<Rightarrow> string" where
  \<open>responseClass code =
     (if startsWith code ''2'' then ''success''
      else if startsWith code ''4'' then ''client'' else ''server'')\<close>

text \<open>generator.js line 90, the inner template.\<close>

definition faviconLink :: "string \<Rightarrow> string" where
  \<open>faviconLink favicon' =
     ''<link rel="icon" href="'' @
     favicon' @
     ''">''\<close>

text \<open>generator.js line 99, the inner template.\<close>

definition logoImg :: "string \<Rightarrow> string" where
  \<open>logoImg logo' =
     ''<img src="'' @
     logo' @
     ''" alt="Logo" class="logo">''\<close>

text \<open>generator.js lines 112-116.\<close>

definition tocMethodItem :: "string \<Rightarrow> string \<Rightarrow> string" where
  \<open>tocMethodItem path method =
     ''\<newline>'' @
     ''                  <li class="method-'' @
     method @
     ''">\<newline>'' @
     ''                    <a href="#'' @
     slugify path @
     ''-'' @
     method @
     ''">'' @
     toUpperCase method @
     ''</a>\<newline>'' @
     ''                  </li>\<newline>'' @
     ''                ''\<close>

text \<open>generator.js lines 108-119.\<close>

definition tocPathItem :: "string \<Rightarrow> (string \<times> operation) list \<Rightarrow> string" where
  \<open>tocPathItem path methods =
     ''\<newline>'' @
     ''            <li>\<newline>'' @
     ''              <a href="#'' @
     slugify path @
     ''">'' @
     escapeHtml (Some path) @
     ''</a>\<newline>'' @
     ''              <ul>\<newline>'' @
     ''                '' @
     concat (map (\<lambda>(method, details). tocMethodItem path method) methods) @
     ''\<newline>'' @
     ''              </ul>\<newline>'' @
     ''            </li>\<newline>'' @
     ''          ''\<close>

text \<open>generator.js lines 104-122.\<close>

definition tocNav :: "spec \<Rightarrow> string" where
  \<open>tocNav spec =
     ''\<newline>'' @
     ''      <nav class="toc">\<newline>'' @
     ''        <h3>Endpoints</h3>\<newline>'' @
     ''        <ul>\<newline>'' @
     ''          '' @
     concat (map (\<lambda>(path, methods). tocPathItem path methods) (pathEntries spec)) @
     ''\<newline>'' @
     ''        </ul>\<newline>'' @
     ''      </nav>\<newline>'' @
     ''      ''\<close>

text \<open>generator.js lines 124-129.\<close>

definition searchBox :: "string" where
  \<open>searchBox =
     ''\<newline>'' @
     ''      <div class="search">\<newline>'' @
     ''        <input type="text" id="search-input" placeholder="Search endpoints...">\<newline>'' @
     ''        <div id="search-results"></div>\<newline>'' @
     ''      </div>\<newline>'' @
     ''      ''\<close>

text \<open>generator.js line 139, the inner template.\<close>

definition contactEmail :: "string \<Rightarrow> string" where
  \<open>contactEmail email' =
     ''<a href="mailto:'' @
     email' @
     ''">'' @
     escapeHtml (Some email') @
     ''</a>''\<close>

text \<open>generator.js line 140, the inner template.\<close>

definition contactUrl :: "string \<Rightarrow> string" where
  \<open>contactUrl url' =
     '' | <a href="'' @
     url' @
     ''" target="_blank">'' @
     escapeHtml (Some url') @
     ''</a>''\<close>

text \<open>generator.js lines 137-142.\<close>

definition contactBlock :: "contact \<Rightarrow> string" where
  \<open>contactBlock c =
     ''\<newline>'' @
     ''          <p class="contact">\<newline>'' @
     ''            '' @
     whenStr (contact.email c) contactEmail @
     ''\<newline>'' @
     ''            '' @
     whenStr (contact.url c) contactUrl @
     ''\<newline>'' @
     ''          </p>\<newline>'' @
     ''        ''\<close>

text \<open>generator.js line 159, the inner template.\<close>

definition descriptionPara :: "string \<Rightarrow> string" where
  \<open>descriptionPara d =
     ''<p class="description">'' @
     escapeHtml (Some d) @
     ''</p>''\<close>

text \<open>generator.js lines 177, 179 and 180: the Type, Required and Description cells of a row.\<close>

definition typeCell :: "parameter \<Rightarrow> string" where
  \<open>typeCell param =
     escapeHtml (Some (orStr (Option.bind (parameter.schema param) param_schema.type) ''string''))\<close>

definition requiredCell :: "parameter \<Rightarrow> string" where
  \<open>requiredCell param = (if parameter.required param = Some True then ''Yes'' else ''No'')\<close>

definition descriptionCell :: "parameter \<Rightarrow> string" where
  \<open>descriptionCell param = escapeHtml (Some (orStr (parameter.description param) ''-''))\<close>

text \<open>generator.js lines 174-182.\<close>

definition paramRow :: "parameter \<Rightarrow> string" where
  \<open>paramRow param =
     ''\<newline>'' @
     ''                        <tr>\<newline>'' @
     ''                          <td><code>'' @
     escapeHtml (parameter.name param) @
     ''</code></td>\<newline>'' @
     ''                          <td>'' @
     typeCell param @
     ''</td>\<newline>'' @
     ''                          <td>'' @
     escapeHtml (parameter.in' param) @
     ''</td>\<newline>'' @
     ''                          <td>'' @
     requiredCell param @
     ''</td>\<newline>'' @
     ''                          <td>'' @
     descriptionCell param @
     ''</td>\<newline>'' @
     ''                        </tr>\<newline>'' @
     ''                      ''\<close>

text \<open>generator.js lines 161-185.\<close>

definition paramsTable :: "parameter list \<Rightarrow> string" where
  \<open>paramsTable params =
     ''\<newline>'' @
     ''                  <h3>Parameters</h3>\<newline>'' @
     ''                  <table class="params">\<newline>'' @
     ''                    <thead>\<newline>'' @
     ''                      <tr>\<newline>'' @
     ''                        <th>Name</th>\<newline>'' @
     ''                        <th>Type</th>\<newline>'' @
     ''                        <th>In</th>\<newline>'' @
     ''                        <th>Required</th>\<newline>'' @
     ''                        <th>Description</th>\<newline>'' @
     ''                      </tr>\<newline>'' @
     ''                    </thead>\<newline>'' @
     ''                    <tbody>\<newline>'' @
     ''                      '' @
     concat (map paramRow params) @
     ''\<newline>'' @
     ''                    </tbody>\<newline>'' @
     ''                  </table>\<newline>'' @
     ''                ''\<close>

text \<open>generator.js lines 187-190.\<close>

definition requestBodyBlock :: "request_body \<Rightarrow> string" where
  \<open>requestBodyBlock rb =
     ''\<newline>'' @
     ''                  <h3>Request Body</h3>\<newline>'' @
     ''                  <pre><code class="language-json">'' @
     escapeHtml (Some (JSON_stringify (orJson (jsonSchema (request_body.content rb)) (JObj [])))) @
     ''</code></pre>\<newline>'' @
     ''                ''\<close>

text \<open>generator.js line 187: \<^verbatim>\<open>details.requestBody ? ... : ''\<close>.\<close>

definition requestBodySection :: "operation \<Rightarrow> string" where
  \<open>requestBodySection details =
     (case operation.requestBody details of None \<Rightarrow> [] | Some rb \<Rightarrow> requestBodyBlock rb)\<close>

text \<open>generator.js lines 196-198.\<close>

definition responseSchemaBlock :: "json \<Rightarrow> string" where
  \<open>responseSchemaBlock schema' =
     ''\<newline>'' @
     ''                      <pre><code class="language-json">'' @
     escapeHtml (Some (JSON_stringify schema')) @
     ''</code></pre>\<newline>'' @
     ''                    ''\<close>

text \<open>generator.js lines 193-200.\<close>

definition responseBlock :: "string \<Rightarrow> response \<Rightarrow> string" where
  \<open>responseBlock code response =
     ''\<newline>'' @
     ''                  <div class="response response-'' @
     responseClass code @
     ''">\<newline>'' @
     ''                    <h4>'' @
     code @
     '' '' @
     escapeHtml (Some (orStr (response.description response) [])) @
     ''</h4>\<newline>'' @
     ''                    '' @
     whenJson (jsonSchema (response.content response)) responseSchemaBlock @
     ''\<newline>'' @
     ''                  </div>\<newline>'' @
     ''                ''\<close>

text \<open>generator.js lines 202-208.\<close>

definition tryItOutBlock :: "string \<Rightarrow> string \<Rightarrow> string" where
  \<open>tryItOutBlock path method =
     ''\<newline>'' @
     ''                  <div class="try-it-out">\<newline>'' @
     ''                    <h4>Try It Out</h4>\<newline>'' @
     ''                    <button onclick="tryItOut('' @ [CHR 0x27] @
     method @
     [CHR 0x27] @ '', '' @ [CHR 0x27] @
     path @
     [CHR 0x27] @ '')">Send Request</button>\<newline>'' @
     ''                    <pre id="response-'' @
     slugify path @
     ''-'' @
     method @
     ''" class="response-output hidden"></pre>\<newline>'' @
     ''                  </div>\<newline>'' @
     ''                ''\<close>

text \<open>generator.js lines 151-210.\<close>

definition endpointBlock :: "bool \<Rightarrow> string \<Rightarrow> string \<Rightarrow> operation \<Rightarrow> string" where
  \<open>endpointBlock tryItOut' path method details =
     ''\<newline>'' @
     ''              <div id="'' @
     slugify path @
     ''-'' @
     method @
     ''" class="endpoint method-'' @
     method @
     ''">\<newline>'' @
     ''                <div class="endpoint-header">\<newline>'' @
     ''                  <span class="method">'' @
     toUpperCase method @
     ''</span>\<newline>'' @
     ''                  <span class="path">'' @
     escapeHtml (Some path) @
     ''</span>\<newline>'' @
     ''                  <span class="summary">'' @
     escapeHtml (Some (orStr (orElse (operation.summary details) (operation.description details)) [])) @
     ''</span>\<newline>'' @
     ''                </div>\<newline>'' @
     ''\<newline>'' @
     ''                '' @
     whenStr (operation.description details) descriptionPara @
     ''\<newline>'' @
     ''\<newline>'' @
     ''                '' @
     (case operation.parameters details of None \<Rightarrow> [] | Some params \<Rightarrow> if length params \<noteq> 0 then paramsTable params else []) @
     ''\<newline>'' @
     ''\<newline>'' @
     ''                '' @
     requestBodySection details @
     ''\<newline>'' @
     ''\<newline>'' @
     ''                <h3>Responses</h3>\<newline>'' @
     ''                '' @
     concat (map (\<lambda>(code, response). responseBlock code response) (responseEntries details)) @
     ''\<newline>'' @
     ''\<newline>'' @
     ''                '' @
     (if tryItOut' then tryItOutBlock path method else []) @
     ''\<newline>'' @
     ''              </div>\<newline>'' @
     ''            ''\<close>

text \<open>generator.js lines 147-212.\<close>

definition endpointGroup :: "bool \<Rightarrow> string \<Rightarrow> (string \<times> operation) list \<Rightarrow> string" where
  \<open>endpointGroup tryItOut' path methods =
     ''\<newline>'' @
     ''          <div id="'' @
     slugify path @
     ''" class="endpoint-group">\<newline>'' @
     ''            <h2>'' @
     escapeHtml (Some path) @
     ''</h2>\<newline>'' @
     ''\<newline>'' @
     ''            '' @
     concat (map (\<lambda>(method, details). endpointBlock tryItOut' path method details) methods) @
     ''\<newline>'' @
     ''          </div>\<newline>'' @
     ''        ''\<close>

text \<open>generator.js lines 147-212: the content of the endpoints section.\<close>

definition endpointsSection :: "bool \<Rightarrow> spec \<Rightarrow> string" where
  \<open>endpointsSection tryItOut' spec =
     concat (map (\<lambda>(path, methods). endpointGroup tryItOut' path methods) (pathEntries spec))\<close>

text \<open>generator.js lines 218-223.\<close>

definition schemaBlock :: "string \<Rightarrow> json \<Rightarrow> string" where
  \<open>schemaBlock name' schema' =
     ''\<newline>'' @
     ''            <div class="schema">\<newline>'' @
     ''              <h3>'' @
     escapeHtml (Some name') @
     ''</h3>\<newline>'' @
     ''              <pre><code class="language-json">'' @
     escapeHtml (Some (JSON_stringify schema')) @
     ''</code></pre>\<newline>'' @
     ''            </div>\<newline>'' @
     ''          ''\<close>

text \<open>generator.js lines 215-225.\<close>

definition schemasSection :: "(string \<times> json) list \<Rightarrow> string" where
  \<open>schemasSection schemas' =
     ''\<newline>'' @
     ''        <section class="schemas">\<newline>'' @
     ''          <h2>Schemas</h2>\<newline>'' @
     ''          '' @
     concat (map (\<lambda>(name, schema). schemaBlock name schema) schemas') @
     ''\<newline>'' @
     ''        </section>\<newline>'' @
     ''      ''\<close>

text \<open>generator.js lines 81-233.\<close>

definition generateHTML :: "spec \<Rightarrow> options \<Rightarrow> string" where
  \<open>generateHTML spec options =
     ''<!DOCTYPE html>\<newline>'' @
     ''<html lang="en">\<newline>'' @
     ''<head>\<newline>'' @
     ''  <meta charset="UTF-8">\<newline>'' @
     ''  <meta name="viewport" content="width=device-width, initial-scale=1.0">\<newline>'' @
     ''  <title>'' @
     escapeHtml (Some (options.title options)) @
     ''</title>\<newline>'' @
     ''  '' @
     whenStr (options.favicon options) faviconLink @
     ''\<newline>'' @
     ''  <link rel="stylesheet" href="/assets/style.css">\<newline>'' @
     ''  <link rel="stylesheet" href="https://cdnjs.cloudflare.com/ajax/libs/highlight.js/11.9.0/styles/github-dark.min.css">\<newline>'' @
     ''</head>\<newline>'' @
     ''<body class="theme-'' @
     options.theme options @
     ''">\<newline>'' @
     ''  <div class="container">\<newline>'' @
     ''    <!-- Sidebar -->\<newline>'' @
     ''    <aside class="sidebar">\<newline>'' @
     ''      <div class="sidebar-header">\<newline>'' @
     ''        '' @
     whenStr (options.logo options) logoImg @
     ''\<newline>'' @
     ''        <h1>'' @
     escapeHtml (Some (orStr (Option.bind (spec.info spec) info.title) ''API Documentation'')) @
     ''</h1>\<newline>'' @
     ''        <p class="version">'' @
     escapeHtml (Some (orStr (Option.bind (spec.info spec) info.version) ''1.0.0'')) @
     ''</p>\<newline>'' @
     ''      </div>\<newline>'' @
     ''\<newline>'' @
     ''      '' @
     (if options.toc options then tocNav spec else []) @
     ''\<newline>'' @
     ''\<newline>'' @
     ''      '' @
     (if options.search options then searchBox else []) @
     ''\<newline>'' @
     ''    </aside>\<newline>'' @
     ''\<newline>'' @
     ''    <!-- Main Content -->\<newline>'' @
     ''    <main class="content">\<newline>'' @
     ''      <header class="header">\<newline>'' @
     ''        <h1>'' @
     escapeHtml (Some (options.title options)) @
     ''</h1>\<newline>'' @
     ''        <p class="description">'' @
     escapeHtml (Some (orStr (Option.bind (spec.info spec) info.description) [])) @
     ''</p>\<newline>'' @
     ''        '' @
     (case Option.bind (spec.info spec) info.contact of None \<Rightarrow> [] | Some c \<Rightarrow> contactBlock c) @
     ''\<newline>'' @
     ''      </header>\<newline>'' @
     ''\<newline>'' @
     ''      <!-- Endpoints -->\<newline>'' @
     ''      <section class="endpoints">\<newline>'' @
     ''        '' @
     endpointsSection (options.tryItOut options) spec @
     ''\<newline>'' @
     ''      </section>\<newline>'' @
     ''\<newline>'' @
     ''      '' @
     (case Option.bind (spec.components spec) components.schemas of None \<Rightarrow> [] | Some schemas' \<Rightarrow> schemasSection schemas') @
     ''\<newline>'' @
     ''    </main>\<newline>'' @
     ''  </div>\<newline>'' @
     ''\<newline>'' @
     ''  <script src="https://cdnjs.cloudflare.com/ajax/libs/highlight.js/11.9.0/highlight.min.js"></script>\<newline>'' @
     ''  <script src="/assets/app.js"></script>\<newline>'' @
     ''</body>\<newline>'' @
     ''</html>''\<close>

section \<open>The search index\<close>

record search_entry =
  path :: string
  "method" :: string
  title :: string
  description :: string
  slug :: string

record search_index =
  index :: "search_entry list"

text \<open>generator.js lines 240-246: the entry pushed for one operation.\<close>

definition searchEntry :: "string \<Rightarrow> string \<Rightarrow> operation \<Rightarrow> search_entry" where
  \<open>searchEntry path' method' details =
     \<lparr>path = path',
      method = method',
      title = orStr (orElse (operation.summary details) (operation.description details)) path',
      description = orStr (operation.description details) [],
      slug = slugify path' @ ''-'' @ method'\<rparr>\<close>

text \<open>
  generator.js lines 235-251.  The two \<^verbatim>\<open>for\<close> loops are folds over the entries; \<^verbatim>\<open>push\<close>
  appends at the end of \<open>index\<close>.
\<close>

definition generateSearchIndex :: "spec \<Rightarrow> search_index" where
  \<open>generateSearchIndex spec =
     \<lparr>index =
        fold (\<lambda>(path, methods) index.
                fold (\<lambda>(method, details) index. index @ [searchEntry path method details])
                  methods index)
          (pathEntries spec) []\<rparr>\<close>

section \<open>The stylesheet\<close>

text \<open>A colour table; its field \<^verbatim>\<open>text\<close> is written \<open>text'\<close>.\<close>

record color_table =
  bg :: string
  text' :: string
  sidebar :: string
  border :: string
  code :: string

text \<open>generator.js lines 254-283: the four tables and the own properties of \<^verbatim>\<open>colors\<close>.\<close>

definition light :: color_table where
  \<open>light = \<lparr>bg = ''#ffffff'', text' = ''#333333'', sidebar = ''#f8f9fa'',
     border = ''#e1e4e8'', code = ''#f6f8fa''\<rparr>\<close>

definition dark :: color_table where
  \<open>dark = \<lparr>bg = ''#1a1a1a'', text' = ''#e6e6e6'', sidebar = ''#242424'',
     border = ''#3a3a3a'', code = ''#2d2d2d''\<rparr>\<close>

definition dracula :: color_table where
  \<open>dracula = \<lparr>bg = ''#282a36'', text' = ''#f8f8f2'', sidebar = ''#21222c'',
     border = ''#44475a'', code = ''#44475a''\<rparr>\<close>

definition github :: color_table where
  \<open>github = \<lparr>bg = ''#ffffff'', text' = ''#24292f'', sidebar = ''#f6f8fa'',
     border = ''#d0d7de'', code = ''#f6f8fa''\<rparr>\<close>

definition colors :: "(string \<times> color_table) list" where
  \<open>colors = [(''light'', light), (''dark'', dark), (''dracula'', dracula), (''github'', github)]\<close>

text \<open>
  \<^verbatim>\<open>colors\<close> is an object literal, so \<^verbatim>\<open>colors[theme]\<close> also finds the properties it
  inherits from \<^verbatim>\<open>Object.prototype\<close>.  These are their names; each is a function, except
  \<^verbatim>\<open>__proto__\<close>, which is the prototype object itself.
\<close>

definition objectPrototypeKeys :: "string list" where
  \<open>objectPrototypeKeys =
     [''constructor'', ''__defineGetter__'', ''__defineSetter__'', ''hasOwnProperty'',
      ''__lookupGetter__'', ''__lookupSetter__'', ''isPrototypeOf'', ''propertyIsEnumerable'',
      ''toString'', ''valueOf'', ''__proto__'', ''toLocaleString'']\<close>

text \<open>
  What \<^verbatim>\<open>colors[theme]\<close> evaluates to: one of the four tables, an inherited member, or
  \<^verbatim>\<open>undefined\<close> (\<^term>\<open>None\<close>).
\<close>

datatype theme_entry = Table color_table | Inherited

definition colorsLookup :: "string \<Rightarrow> theme_entry option" where
  \<open>colorsLookup theme' =
     (case map_of colors theme' of
        Some t \<Rightarrow> Some (Table t)
      | None \<Rightarrow> if theme' \<in> set objectPrototypeKeys then Some Inherited else None)\<close>

text \<open>
  \<^verbatim>\<open>${c.bg}\<close> and its siblings: a table has the property; an inherited member has not, and
  \<^verbatim>\<open>undefined\<close> is interpolated as the text \<^verbatim>\<open>undefined\<close>.
\<close>

fun getProp :: "(color_table \<Rightarrow> string) \<Rightarrow> theme_entry \<Rightarrow> string" where
  \<open>getProp field (Table t) = field t\<close>
| \<open>getProp field Inherited = ''undefined''\<close>

text \<open>generator.js lines 287-359: the stylesheet template, for the entry \<open>c\<close> chosen at line 285.\<close>

definition css :: "theme_entry \<Rightarrow> string" where
  \<open>css c =
     ''\<newline>'' @
     ''* { box-sizing: border-box; margin: 0; padding: 0; }\<newline>'' @
     ''body { font-family: -apple-system, BlinkMacSystemFont, 'Segoe UI', Roboto, sans-serif; background: '' @
     getProp color_table.bg c @
     ''; color: '' @
     getProp color_table.text' c @
     ''; line-height: 1.6; }\<newline>'' @
     ''.container { display: flex; min-height: 100vh; }\<newline>'' @
     ''\<newline>'' @
     ''/* Sidebar */\<newline>'' @
     ''.sidebar { width: 300px; background: '' @
     getProp color_table.sidebar c @
     ''; border-right: 1px solid '' @
     getProp color_table.border c @
     ''; padding: 20px; position: sticky; top: 0; height: 100vh; overflow-y: auto; }\<newline>'' @
     ''.sidebar-header h1 { font-size: 1.2rem; margin: 10px 0 5px; }\<newline>'' @
     ''.sidebar-header .version { font-size: 0.9rem; opacity: 0.7; }\<newline>'' @
     ''.logo { max-height: 40px; margin-bottom: 10px; }\<newline>'' @
     ''\<newline>'' @
     ''/* TOC */\<newline>'' @
     ''.toc { margin-top: 20px; }\<newline>'' @
     ''.toc h3 { font-size: 0.9rem; text-transform: uppercase; opacity: 0.7; margin-bottom: 10px; }\<newline>'' @
     ''.toc ul { list-style: none; }\<newline>'' @
     ''.toc li { margin: 5px 0; }\<newline>'' @
     ''.toc a { color: '' @
     getProp color_table.text' c @
     ''; text-decoration: none; display: block; padding: 5px; border-radius: 4px; }\<newline>'' @
     ''.toc a:hover { background: '' @
     getProp color_table.border c @
     ''; }\<newline>'' @
     ''.method-get { color: #10b981; }\<newline>'' @
     ''.method-post { color: #3b82f6; }\<newline>'' @
     ''.method-put { color: #f59e0b; }\<newline>'' @
     ''.method-delete { color: #ef4444; }\<newline>'' @
     ''.method-patch { color: #8b5cf6; }\<newline>'' @
     ''\<newline>'' @
     ''/* Search */\<newline>'' @
     ''.search { margin-top: 20px; }\<newline>'' @
     ''.search input { width: 100%; padding: 10px; border: 1px solid '' @
     getProp color_table.border c @
     ''; border-radius: 6px; background: '' @
     getProp color_table.bg c @
     ''; color: '' @
     getProp color_table.text' c @
     ''; }\<newline>'' @
     ''#search-results { margin-top: 10px; max-height: 200px; overflow-y: auto; }\<newline>'' @
     ''.search-result { padding: 10px; cursor: pointer; border-radius: 4px; }\<newline>'' @
     ''.search-result:hover { background: '' @
     getProp color_table.border c @
     ''; }\<newline>'' @
     ''\<newline>'' @
     ''/* Content */\<newline>'' @
     ''.content { flex: 1; padding: 40px; max-width: 1200px; }\<newline>'' @
     ''.header { margin-bottom: 40px; border-bottom: 1px solid '' @
     getProp color_table.border c @
     ''; padding-bottom: 20px; }\<newline>'' @
     ''.header h1 { font-size: 2.5rem; margin-bottom: 10px; }\<newline>'' @
     ''\<newline>'' @
     ''.endpoint-group { margin-bottom: 40px; }\<newline>'' @
     ''.endpoint { background: '' @
     getProp color_table.code c @
     ''; border-radius: 8px; padding: 20px; margin-bottom: 20px; }\<newline>'' @
     ''.endpoint-header { display: flex; align-items: center; gap: 15px; margin-bottom: 15px; }\<newline>'' @
     ''.method { padding: 4px 12px; border-radius: 4px; font-weight: bold; font-size: 0.85rem; text-transform: uppercase; }\<newline>'' @
     ''.method-get { background: #10b981; color: white; }\<newline>'' @
     ''.method-post { background: #3b82f6; color: white; }\<newline>'' @
     ''.method-put { background: #f59e0b; color: white; }\<newline>'' @
     ''.method-delete { background: #ef4444; color: white; }\<newline>'' @
     ''.method-patch { background: #8b5cf6; color: white; }\<newline>'' @
     ''.path { font-family: monospace; background: '' @
     getProp color_table.border c @
     ''; padding: 4px 8px; border-radius: 4px; }\<newline>'' @
     ''.summary { flex: 1; }\<newline>'' @
     ''\<newline>'' @
     ''.params { width: 100%; border-collapse: collapse; margin: 15px 0; }\<newline>'' @
     ''.params th, .params td { text-align: left; padding: 12px; border-bottom: 1px solid '' @
     getProp color_table.border c @
     ''; }\<newline>'' @
     ''.params th { font-weight: 600; opacity: 0.7; }\<newline>'' @
     ''.params code { background: '' @
     getProp color_table.border c @
     ''; padding: 2px 6px; border-radius: 3px; }\<newline>'' @
     ''\<newline>'' @
     ''.response { margin: 15px 0; padding: 15px; border-radius: 6px; border-left: 4px solid; }\<newline>'' @
     ''.response-success { border-color: #10b981; background: rgba(16, 185, 129, 0.1); }\<newline>'' @
     ''.response-client { border-color: #f59e0b; background: rgba(245, 158, 11, 0.1); }\<newline>'' @
     ''.response-server { border-color: #ef4444; background: rgba(239, 68, 68, 0.1); }\<newline>'' @
     ''\<newline>'' @
     ''pre { background: '' @
     getProp color_table.code c @
     ''; padding: 15px; border-radius: 6px; overflow-x: auto; margin: 10px 0; }\<newline>'' @
     ''code { font-family: 'Fira Code', monospace; font-size: 0.9rem; }\<newline>'' @
     ''\<newline>'' @
     ''.try-it-out { margin-top: 15px; }\<newline>'' @
     ''.try-it-out button { padding: 10px 20px; background: #3b82f6; color: white; border: none; border-radius: 6px; cursor: pointer; }\<newline>'' @
     ''.try-it-out button:hover { background: #2563eb; }\<newline>'' @
     ''.response-output { margin-top: 10px; }\<newline>'' @
     ''.hidden { display: none; }\<newline>'' @
     ''\<newline>'' @
     ''@media (max-width: 768px) {\<newline>'' @
     ''  .container { flex-direction: column; }\<newline>'' @
     ''  .sidebar { width: 100%; height: auto; position: relative; }\<newline>'' @
     ''  .content { padding: 20px; }\<newline>'' @
     ''}\<newline>''\<close>

text \<open>
  generator.js lines 253-360.  Line 285 is \<^verbatim>\<open>colors[theme] || colors.light\<close>: tables and
  inherited members are truthy, \<^verbatim>\<open>undefined\<close> is not.
\<close>

definition getCSS :: "string \<Rightarrow> string" where
  \<open>getCSS theme' =
     css (case colorsLookup theme' of
            Some c \<Rightarrow> c
          | None \<Rightarrow> Table light)\<close>

section \<open>The loader\<close>

text \<open>
  parser.js, \<^verbatim>\<open>parseSpec\<close> (the same function is at generator.js lines 71-79).  The file
  system and the two decoders are not part of the repository: \<open>readFile\<close> gives the content
  of a file or \<^term>\<open>None\<close> when it cannot be read, and a decoder gives \<^term>\<open>None\<close> when it
  rejects its input.
\<close>

datatype error = NotFoundError | DecodeError

text \<open>Line 73 and the test of line 75.\<close>

definition extension :: "string \<Rightarrow> string option" where
  \<open>extension inputPath = pop (split (CHR ''.'') inputPath)\<close>

definition isYaml :: "string \<Rightarrow> bool" where
  \<open>isYaml inputPath = (extension inputPath = Some ''yaml'' \<or> extension inputPath = Some ''yml'')\<close>

definition parseSpec ::
  "(string \<Rightarrow> string option) \<Rightarrow> (string \<Rightarrow> 't option) \<Rightarrow> (string \<Rightarrow> 't option) \<Rightarrow> string \<Rightarrow> error + 't"
where
  \<open>parseSpec readFile yaml_parse JSON_parse inputPath =
     (case readFile inputPath of
        None \<Rightarrow> Inl NotFoundError
      | Some content' \<Rightarrow>
          if isYaml inputPath
          then (case yaml_parse content' of None \<Rightarrow> Inl DecodeError | Some t \<Rightarrow> Inr t)
          else (case JSON_parse content' of None \<Rightarrow> Inl DecodeError | Some t \<Rightarrow> Inr t))\<close>

text \<open>parser.js, \<^verbatim>\<open>validateSpec\<close>.\<close>

record validation =
  valid :: bool
  errors :: "string list"

definition validateSpec :: "spec \<Rightarrow> validation" where
  \<open>validateSpec spec =
     (let errors = [];
          errors = (if \<not> truthy (spec.openapi spec) \<and> \<not> truthy (spec.swagger spec)
                    then errors @ [''Missing openapi or swagger version''] else errors);
          errors = (if spec.info spec = None then errors @ [''Missing info object''] else errors);
          errors = (if spec.paths spec = None then errors @ [''Missing paths object''] else errors)
      in \<lparr>valid = (length errors = 0), errors = errors\<rparr>)\<close>

section \<open>Statements of the specification, for comparison\<close>

text \<open>
  The parameter table as the specification words it: the Type cell shows \<^verbatim>\<open>schema.type\<close>
  when present and \<^verbatim>\<open>string\<close> when absent, the Description cell shows the description
  when present and \<^verbatim>\<open>-\<close> when absent.
\<close>

definition specTypeCell :: "parameter \<Rightarrow> string" where
  \<open>specTypeCell param =
     (case Option.bind (parameter.schema param) param_schema.type of
        None \<Rightarrow> ''string'' | Some t \<Rightarrow> escapeHtml (Some t))\<close>

definition specDescriptionCell :: "parameter \<Rightarrow> string" where
  \<open>specDescriptionCell param =
     (case parameter.description param of None \<Rightarrow> ''-'' | Some d \<Rightarrow> escapeHtml (Some d))\<close>

text \<open>
  The specification's condition for a request-body block: the operation's request body
  carries a schema under the media type \<^verbatim>\<open>application/json\<close>.
\<close>

definition hasJsonSchema :: "operation \<Rightarrow> bool" where
  \<open>hasJsonSchema details =
     (case operation.requestBody details of
        None \<Rightarrow> False
      | Some rb \<Rightarrow> jsonSchema (request_body.content rb) \<noteq> None)\<close>

text \<open>
  The search entry as the specification words it: the title is the summary if present, else
  the description if present, else the path.
\<close>

definition specTitle :: "string \<Rightarrow> operation \<Rightarrow> string" where
  \<open>specTitle path' details =
     (case operation.summary details of
        Some s \<Rightarrow> s
      | None \<Rightarrow> (case operation.description details of Some d \<Rightarrow> d | None \<Rightarrow> path'))\<close>

text \<open>The (path, method) pairs of a document, in iteration order.\<close>

definition pathMethodPairs :: "spec \<Rightarrow> (string \<times> string) list" where
  \<open>pathMethodPairs spec =
     concat (map (\<lambda>(path, methods). map (\<lambda>(method, details). (path, method)) methods)
               (pathEntries spec))\<close>

text \<open>Keys of a decoded mapping are pairwise distinct.\<close>

definition distinctKeys :: "spec \<Rightarrow> bool" where
  \<open>distinctKeys spec =
     (distinct (map fst (pathEntries spec)) \<and>
      list_all (\<lambda>(path, methods). distinct (map fst methods)) (pathEntries spec))\<close>

text \<open>
  The validation errors as the specification words them: one error when neither
  \<^verbatim>\<open>openapi\<close> nor \<^verbatim>\<open>swagger\<close> is present, one when \<^verbatim>\<open>info\<close> is absent, one when
  \<^verbatim>\<open>paths\<close> is absent.
\<close>

definition specErrors :: "spec \<Rightarrow> string list" where
  \<open>specErrors spec =
     (if spec.openapi spec = None \<and> spec.swagger spec = None
      then [''Missing openapi or swagger version''] else []) @
     (if spec.info spec = None then [''Missing info object''] else []) @
     (if spec.paths spec = None then [''Missing paths object''] else [])\<close>

text \<open>What the five replacements of \<^verbatim>\<open>escapeHtml\<close> do to one character.\<close>

definition escapeChar :: "char \<Rightarrow> string" where
  \<open>escapeChar c =
     (if c = CHR ''&'' then ''&amp;''
      else if c = CHR ''<'' then ''&lt;''
      else if c = CHR ''>'' then ''&gt;''
      else if c = CHR 0x22 then ''&quot;''
      else if c = CHR 0x27 then ''&#039;''
      else [c])\<close>

section \<open>Example documents\<close>

definition emptyOperation :: operation where
  \<open>emptyOperation =
     \<lparr>summary = None, description = None, parameters = None, requestBody = None,
      responses = None\<rparr>\<close>

definition emptySpec :: spec where
  \<open>emptySpec = \<lparr>openapi = None, swagger = None, info = None, paths = None, components = None\<rparr>\<close>

definition defaultOptions :: options where
  \<open>defaultOptions =
     \<lparr>theme = ''light'', logo = None, favicon = None, tryItOut = False, search = True,
      toc = True, title = ''API Documentation''\<rparr>\<close>

definition exampleSpec :: spec where
  \<open>exampleSpec =
     emptySpec\<lparr>paths := Some
       [(''/users'', [(''get'', emptyOperation), (''post'', emptyOperation)]),
        (''/pets'', [(''get'', emptyOperation)])]\<rparr>\<close>

text \<open>A document whose only path contains a character that HTML treats as markup.\<close>

definition markupPathSpec :: spec where
  \<open>markupPathSpec = emptySpec\<lparr>paths := Some [(''/a<b'', [(''get'', emptyOperation)])]\<rparr>\<close>

text \<open>
  Operations with a request body: one whose JSON schema is an object, one whose JSON schema
  is \<^verbatim>\<open>false\<close>, and one that offers plain text only.
\<close>

definition objectSchemaOperation :: operation where
  \<open>objectSchemaOperation =
     emptyOperation\<lparr>requestBody := Some \<lparr>content = Some
       [(''application/json'', \<lparr>schema = Some (JObj [(''type'', JStr ''object'')])\<rparr>)]\<rparr>\<rparr>\<close>

definition falseSchemaOperation :: operation where
  \<open>falseSchemaOperation =
     emptyOperation\<lparr>requestBody := Some \<lparr>content = Some
       [(''application/json'', \<lparr>schema = Some (JBool False)\<rparr>)]\<rparr>\<rparr>\<close>

definition plainTextOperation :: operation where
  \<open>plainTextOperation =
     emptyOperation\<lparr>requestBody := Some \<lparr>content = Some
       [(''text/plain'', \<lparr>schema = None\<rparr>)]\<rparr>\<rparr>\<close>

section \<open>Auxiliary facts about lists and strings\<close>

lemma sublist_skip: \<open>sublist xs ys \<Longrightarrow> sublist xs (zs @ ys)\<close>
  by (metis append_Nil2 sublist_appendI sublist_order.order_trans)

lemma sublist_after_prefix: \<open>prefix (ps @ xs) ys \<Longrightarrow> sublist xs ys\<close>
  by (meson prefix_imp_sublist sublist_append_leftI sublist_order.order_trans)

lemma sublist_hit5: \<open>sublist (a @ b @ c @ d @ e) (a @ b @ c @ d @ e @ rest)\<close>
  by (rule prefix_imp_sublist) simp

lemma sublist_hit7:
  \<open>sublist (a @ b @ c @ d @ e @ f @ g) (a @ b @ c @ d @ e @ f @ g @ rest)\<close>
  by (rule prefix_imp_sublist) simp

lemma sublist_concat_member: \<open>x \<in> set xs \<Longrightarrow> sublist x (concat xs)\<close>
  by (auto dest!: split_list)

lemma replaceAll_Nil: \<open>replaceAll P r [] = []\<close>
  by (simp add: replaceAll_def)

lemma replaceAll_Cons: \<open>replaceAll P r (c # cs) = (if P c then r else [c]) @ replaceAll P r cs\<close>
  by (simp add: replaceAll_def)

lemma replaceAll_append: \<open>replaceAll P r (xs @ ys) = replaceAll P r xs @ replaceAll P r ys\<close>
  by (simp add: replaceAll_def)

lemma replaceAll_single: \<open>replaceAll P [r] s = map (\<lambda>c. if P c then r else c) s\<close>
  by (induction s) (simp_all add: replaceAll_Nil replaceAll_Cons)

section \<open>Escaping\<close>

text \<open>
  The five replacements amount to one pass over the string: the ampersands that the later
  replacements introduce come after the first replacement has run, and none of the
  replacement texts contains a character that a later replacement matches.
\<close>

lemma escape_one:
  \<open>replaceAll (\<lambda>c. c = CHR 0x27) ''&#039;''
     (replaceAll (\<lambda>c. c = CHR 0x22) ''&quot;''
       (replaceAll (\<lambda>c. c = CHR ''>'') ''&gt;''
         (replaceAll (\<lambda>c. c = CHR ''<'') ''&lt;''
           (replaceAll (\<lambda>c. c = CHR ''&'') ''&amp;'' [c])))) = escapeChar c\<close>
  by (simp add: replaceAll_Cons replaceAll_Nil escapeChar_def)

lemma escape_chain:
  \<open>replaceAll (\<lambda>c. c = CHR 0x27) ''&#039;''
     (replaceAll (\<lambda>c. c = CHR 0x22) ''&quot;''
       (replaceAll (\<lambda>c. c = CHR ''>'') ''&gt;''
         (replaceAll (\<lambda>c. c = CHR ''<'') ''&lt;''
           (replaceAll (\<lambda>c. c = CHR ''&'') ''&amp;'' s)))) = concat (map escapeChar s)\<close>
proof (induction s)
  case Nil
  show ?case by (simp add: replaceAll_Nil)
next
  case (Cons c s)
  have \<open>c # s = [c] @ s\<close> by simp
  then show ?case
    by (simp only: replaceAll_append escape_one Cons.IH) simp
qed

lemma escapeHtml_one_pass: \<open>escapeHtml (Some s) = concat (map escapeChar s)\<close>
  by (cases s) (simp_all add: escapeHtml_def truthy_def escape_chain replaceAll_Nil del: concat.simps)

lemma escapeChar_safe:
  \<open>set (escapeChar c) \<inter> {CHR ''<'', CHR ''>'', CHR 0x22, CHR 0x27} = {}\<close>
  by (simp add: escapeChar_def)

text \<open>What \<^verbatim>\<open>escapeHtml\<close> returns contains no angle bracket and no quote.\<close>

lemma escapeHtml_safe:
  \<open>set (escapeHtml v) \<inter> {CHR ''<'', CHR ''>'', CHR 0x22, CHR 0x27} = {}\<close>
proof (cases v)
  case None
  then show ?thesis by (simp add: escapeHtml_def truthy_def)
next
  case (Some s)
  have \<open>set (concat (map escapeChar s)) \<inter> {CHR ''<'', CHR ''>'', CHR 0x22, CHR 0x27} = {}\<close>
    using escapeChar_safe by (induction s) (auto simp del: insert_iff)
  then show ?thesis by (simp only: Some escapeHtml_one_pass)
qed

text \<open>
  The Try It Out block interpolates method and path as they are (generator.js line 205),
  and the block reaches the page whenever the option is on.
\<close>

lemma tryItOutBlock_call:
  \<open>sublist (''tryItOut('' @ [CHR 0x27] @ m @ [CHR 0x27] @ '', '' @ [CHR 0x27] @ p @ [CHR 0x27] @ '')'')
     (tryItOutBlock p m)\<close>
proof -
  have \<open>tryItOutBlock p m =
      (''\<newline>'' @
       ''                  <div class="try-it-out">\<newline>'' @
       ''                    <h4>Try It Out</h4>\<newline>'' @
       ''                    <button onclick="'') @
      (''tryItOut('' @ [CHR 0x27] @ m @ [CHR 0x27] @ '', '' @ [CHR 0x27] @ p @ [CHR 0x27] @ '')'') @
      (''">Send Request</button>\<newline>'' @
       ''                    <pre id="response-'' @ slugify p @ ''-'' @ m @
       ''" class="response-output hidden"></pre>\<newline>'' @
       ''                  </div>\<newline>'' @
       ''                '')\<close>
    by (simp add: tryItOutBlock_def)
  then show ?thesis
    by (simp only: sublist_appendI)
qed

lemma tryItOutBlock_in_endpointBlock:
  \<open>sublist (tryItOutBlock p m) (endpointBlock True p m d)\<close>
  unfolding endpointBlock_def if_True by (intro sublist_appendI sublist_skip)

lemma endpointBlock_in_endpointGroup:
  \<open>(m, d) \<in> set ms \<Longrightarrow> sublist (endpointBlock t p m d) (endpointGroup t p ms)\<close>
proof -
  assume \<open>(m, d) \<in> set ms\<close>
  then have \<open>endpointBlock t p m d \<in> set (map (\<lambda>(m, d). endpointBlock t p m d) ms)\<close>
    by force
  then have \<open>sublist (endpointBlock t p m d) (concat (map (\<lambda>(m, d). endpointBlock t p m d) ms))\<close>
    by (rule sublist_concat_member)
  moreover have \<open>sublist (concat (map (\<lambda>(m, d). endpointBlock t p m d) ms)) (endpointGroup t p ms)\<close>
    unfolding endpointGroup_def by (intro sublist_appendI sublist_skip)
  ultimately show ?thesis
    by (rule sublist_order.order_trans)
qed

lemma endpointGroup_in_endpointsSection:
  \<open>(p, ms) \<in> set (pathEntries s) \<Longrightarrow> sublist (endpointGroup t p ms) (endpointsSection t s)\<close>
proof -
  assume \<open>(p, ms) \<in> set (pathEntries s)\<close>
  then have \<open>endpointGroup t p ms \<in> set (map (\<lambda>(p, ms). endpointGroup t p ms) (pathEntries s))\<close>
    by force
  then show ?thesis
    unfolding endpointsSection_def by (rule sublist_concat_member)
qed

lemma endpointsSection_in_generateHTML:
  \<open>sublist (endpointsSection (options.tryItOut opts) s) (generateHTML s opts)\<close>
  unfolding generateHTML_def by (intro sublist_appendI sublist_skip)

lemma raw_path_in_generateHTML:
  \<open>options.tryItOut opts \<Longrightarrow> (p, ms) \<in> set (pathEntries s) \<Longrightarrow> (m, d) \<in> set ms \<Longrightarrow>
   sublist (''tryItOut('' @ [CHR 0x27] @ m @ [CHR 0x27] @ '', '' @ [CHR 0x27] @ p @ [CHR 0x27] @ '')'')
     (generateHTML s opts)\<close>
proof -
  assume on: \<open>options.tryItOut opts\<close> and p: \<open>(p, ms) \<in> set (pathEntries s)\<close> and m: \<open>(m, d) \<in> set ms\<close>
  note tryItOutBlock_call [of m p]
  also note tryItOutBlock_in_endpointBlock [of p m d]
  also note endpointBlock_in_endpointGroup [OF m, of True p]
  also note endpointGroup_in_endpointsSection [OF p, of True]
  also have \<open>sublist (endpointsSection True s) (generateHTML s opts)\<close>
    using endpointsSection_in_generateHTML [of opts s] on by simp
  finally show ?thesis .
qed

text \<open>
  Claim C1: every parameter name, path and description that contains one of the characters
  \<^verbatim>\<open>< > & " '\<close> appears in the page in its escaped form only, never as it is.  The
  renderer breaks this for paths: with Try It Out enabled, the page for the document whose
  only path is \<^verbatim>\<open>/a<b\<close> contains the call \<^verbatim>\<open>tryItOut('get', '/a<b')\<close> with the path as it
  is, although the escaped form of the path is \<^verbatim>\<open>/a&lt;b\<close>.
\<close>

theorem tryItOut_embeds_raw_path:
  \<open>sublist ''tryItOut('get', '/a<b')''
     (generateHTML markupPathSpec (defaultOptions\<lparr>tryItOut := True\<rparr>)) \<and>
   escapeHtml (Some ''/a<b'') = ''/a&lt;b''\<close>
proof
  have \<open>sublist
      (''tryItOut('' @ [CHR 0x27] @ ''get'' @ [CHR 0x27] @ '', '' @ [CHR 0x27] @ ''/a<b'' @ [CHR 0x27] @ '')'')
      (generateHTML markupPathSpec (defaultOptions\<lparr>tryItOut := True\<rparr>))\<close>
    by (rule raw_path_in_generateHTML [where ms = \<open>[(''get'', emptyOperation)]\<close> and d = emptyOperation])
      (simp_all add: defaultOptions_def markupPathSpec_def emptySpec_def pathEntries_def)
  then show \<open>sublist ''tryItOut('get', '/a<b')''
      (generateHTML markupPathSpec (defaultOptions\<lparr>tryItOut := True\<rparr>))\<close>
    by simp
  show \<open>escapeHtml (Some ''/a<b'') = ''/a&lt;b''\<close>
    by (simp add: escapeHtml_one_pass escapeChar_def)
qed

section \<open>Anchors\<close>

text \<open>
  Claim C6: the anchor of a path is the path in lower case with every character outside
  \<^verbatim>\<open>[a-z0-9]\<close> replaced by a hyphen, and the anchor of a method under a path is that slug,
  a hyphen and the method.  These are the \<^verbatim>\<open>id\<close> attributes of the block of a path and of
  the block of a method, and the slug of a search entry.
\<close>

theorem slugify_anchor:
  \<open>slugify p = map (\<lambda>c. if inClass c then c else CHR ''-'') (toLowerCase p) \<and>
   length (slugify p) = length p \<and>
   prefix (''\<newline>          <div id="'' @ slugify p @ ''" class="endpoint-group">'')
     (endpointGroup t p ms) \<and>
   prefix (''\<newline>              <div id="'' @ slugify p @ ''-'' @ m @ ''" class="endpoint method-'')
     (endpointBlock t p m d) \<and>
   search_entry.slug (searchEntry p m d) = slugify p @ ''-'' @ m\<close>
proof (intro conjI)
  show slug: \<open>slugify p = map (\<lambda>c. if inClass c then c else CHR ''-'') (toLowerCase p)\<close>
    by (simp add: slugify_def replaceAll_single if_distrib cong: if_cong)
  show \<open>length (slugify p) = length p\<close>
    by (simp add: slug toLowerCase_def)
  show \<open>prefix (''\<newline>          <div id="'' @ slugify p @ ''" class="endpoint-group">'')
      (endpointGroup t p ms)\<close>
    by (simp add: endpointGroup_def)
  show \<open>prefix (''\<newline>              <div id="'' @ slugify p @ ''-'' @ m @ ''" class="endpoint method-'')
      (endpointBlock t p m d)\<close>
    by (simp add: endpointBlock_def)
  show \<open>search_entry.slug (searchEntry p m d) = slugify p @ ''-'' @ m\<close>
    by (simp add: searchEntry_def)
qed

theorem slugify_anchor_witness:
  \<open>slugify ''/Users/{userId}'' = ''-users--userid-'' \<and>
   search_entry.slug (searchEntry ''/Users/{userId}'' ''get'' emptyOperation) = ''-users--userid--get''\<close>
  using slugify_anchor [of \<open>''/Users/{userId}''\<close> False \<open>[]\<close> \<open>''get''\<close> emptyOperation]
  by (simp add: inClass_def toLowerCase_def lowerChar_def)

section \<open>Response blocks\<close>





section \<open>Parameter rows\<close>

text \<open>
  Claim C10 as it is worded fails for an empty string: a parameter whose description (or
  whose \<^verbatim>\<open>schema.type\<close>) is present and empty gets the default, not its own text.
\<close>

theorem param_cells_empty_string_counterexample:
  \<open>descriptionCell \<lparr>name = Some ''id'', in' = Some ''path'', required = Some True,
       schema = Some \<lparr>type = Some ''''\<rparr>, description = Some ''''\<rparr>
     \<noteq> specDescriptionCell \<lparr>name = Some ''id'', in' = Some ''path'', required = Some True,
       schema = Some \<lparr>type = Some ''''\<rparr>, description = Some ''''\<rparr> \<and>
   typeCell \<lparr>name = Some ''id'', in' = Some ''path'', required = Some True,
       schema = Some \<lparr>type = Some ''''\<rparr>, description = Some ''''\<rparr>
     \<noteq> specTypeCell \<lparr>name = Some ''id'', in' = Some ''path'', required = Some True,
       schema = Some \<lparr>type = Some ''''\<rparr>, description = Some ''''\<rparr>\<close>
  by (simp add: descriptionCell_def specDescriptionCell_def typeCell_def specTypeCell_def
      orStr_def escapeHtml_def truthy_def replaceAll_def)

text \<open>
  Claim C10, amended: in a row of the parameter table the Type cell shows \<^verbatim>\<open>schema.type\<close>
  when it is present and not empty and \<^verbatim>\<open>string\<close> otherwise, the Description cell shows
  the description when it is present and not empty and \<^verbatim>\<open>-\<close> otherwise, and the Required
  cell shows \<^verbatim>\<open>Yes\<close> exactly when \<^verbatim>\<open>required\<close> is true and \<^verbatim>\<open>No\<close> otherwise.
\<close>

theorem param_cells_defaults:
  \<open>typeCell param =
     (case Option.bind (parameter.schema param) param_schema.type of
        None \<Rightarrow> ''string''
      | Some t \<Rightarrow> if t = [] then ''string'' else escapeHtml (Some t)) \<and>
   descriptionCell param =
     (case parameter.description param of
        None \<Rightarrow> ''-''
      | Some d \<Rightarrow> if d = [] then ''-'' else escapeHtml (Some d)) \<and>
   requiredCell param = (if parameter.required param = Some True then ''Yes'' else ''No'') \<and>
   paramRow param =
     ''\<newline>                        <tr>\<newline>'' @
     ''                          <td><code>'' @ escapeHtml (parameter.name param) @ ''</code></td>\<newline>'' @
     ''                          <td>'' @ typeCell param @ ''</td>\<newline>'' @
     ''                          <td>'' @ escapeHtml (parameter.in' param) @ ''</td>\<newline>'' @
     ''                          <td>'' @ requiredCell param @ ''</td>\<newline>'' @
     ''                          <td>'' @ descriptionCell param @ ''</td>\<newline>'' @
     ''                        </tr>\<newline>                      ''\<close>
proof (intro conjI)
  show \<open>typeCell param =
     (case Option.bind (parameter.schema param) param_schema.type of
        None \<Rightarrow> ''string''
      | Some t \<Rightarrow> if t = [] then ''string'' else escapeHtml (Some t))\<close>
    by (simp add: typeCell_def orStr_def escapeHtml_def truthy_def replaceAll_def split: option.split)
  show \<open>descriptionCell param =
     (case parameter.description param of
        None \<Rightarrow> ''-''
      | Some d \<Rightarrow> if d = [] then ''-'' else escapeHtml (Some d))\<close>
    by (simp add: descriptionCell_def orStr_def escapeHtml_def truthy_def replaceAll_def
        split: option.split)
  show \<open>requiredCell param = (if parameter.required param = Some True then ''Yes'' else ''No'')\<close>
    by (simp add: requiredCell_def)
qed (simp add: paramRow_def)

theorem param_cells_defaults_witness:
  \<open>typeCell \<lparr>name = Some ''limit'', in' = Some ''query'', required = None,
       schema = Some \<lparr>type = Some ''integer''\<rparr>, description = None\<rparr> = ''integer'' \<and>
   descriptionCell \<lparr>name = Some ''limit'', in' = Some ''query'', required = None,
       schema = Some \<lparr>type = Some ''integer''\<rparr>, description = None\<rparr> = ''-'' \<and>
   requiredCell \<lparr>name = Some ''limit'', in' = Some ''query'', required = None,
       schema = Some \<lparr>type = Some ''integer''\<rparr>, description = None\<rparr> = ''No''\<close>
  using param_cells_defaults [of \<open>\<lparr>name = Some ''limit'', in' = Some ''query'', required = None,
       schema = Some \<lparr>type = Some ''integer''\<rparr>, description = None\<rparr>\<close>]
  by (simp add: escapeHtml_one_pass escapeChar_def)

section \<open>Request bodies\<close>

lemma requestBodyBlock_not_Nil: \<open>requestBodyBlock rb \<noteq> []\<close>
  by (simp add: requestBodyBlock_def)

text \<open>
  Claim C4 as it is worded fails: an operation whose request body has no JSON schema still
  gets a request-body block.
\<close>

theorem request_body_without_schema_counterexample:
  \<open>requestBodySection (emptyOperation\<lparr>requestBody := Some \<lparr>content = None\<rparr>\<rparr>) \<noteq> [] \<and>
   \<not> hasJsonSchema (emptyOperation\<lparr>requestBody := Some \<lparr>content = None\<rparr>\<rparr>)\<close>
  by (simp add: requestBodySection_def requestBodyBlock_def hasJsonSchema_def emptyOperation_def
      jsonSchema_def)

text \<open>
  Claim C4, amended: the block of an operation contains a request-body block if and only
  if the operation has a request body.  The block is the one of that request body, placed
  between the parameter table and the responses; it shows the schema of the media type
  \<^verbatim>\<open>application/json\<close> when the request body carries one that is truthy (an object, an
  array, \<^verbatim>\<open>true\<close>, a number other than zero or a string that is not empty), and the empty
  object \<^verbatim>\<open>{}\<close> otherwise.
\<close>

theorem request_body_block_iff_request_body:
  \<open>(requestBodySection details \<noteq> []) = (operation.requestBody details \<noteq> None) \<and>
   sublist (requestBodySection details) (endpointBlock t p m details) \<and>
   sublist
     (''\<newline>'' @ ''\<newline>'' @ ''                '' @ requestBodySection details @
      ''\<newline>'' @ ''\<newline>'' @ ''                <h3>Responses</h3>\<newline>'')
     (endpointBlock t p m details) \<and>
   requestBodySection details =
     (case operation.requestBody details of
        None \<Rightarrow> []
      | Some body \<Rightarrow>
          ''\<newline>                  <h3>Request Body</h3>\<newline>'' @
          ''                  <pre><code class="language-json">'' @
          escapeHtml (Some (JSON_stringify
            (case request_body.content body of
               None \<Rightarrow> JObj []
             | Some c \<Rightarrow>
                 (case map_of c ''application/json'' of
                    None \<Rightarrow> JObj []
                  | Some mt \<Rightarrow>
                      (case media_type.schema mt of
                         None \<Rightarrow> JObj []
                       | Some s \<Rightarrow> if jsonTruthy s then s else JObj []))))) @
          ''</code></pre>\<newline>                '') \<and>
   requestBodyBlock rb =
     ''\<newline>                  <h3>Request Body</h3>\<newline>'' @
     ''                  <pre><code class="language-json">'' @
     escapeHtml (Some (JSON_stringify
       (case jsonSchema (request_body.content rb) of
          None \<Rightarrow> JObj []
        | Some s \<Rightarrow> if jsonTruthy s then s else JObj []))) @
     ''</code></pre>\<newline>                ''\<close>
proof (intro conjI)
  show \<open>(requestBodySection details \<noteq> []) = (operation.requestBody details \<noteq> None)\<close>
    by (simp add: requestBodySection_def requestBodyBlock_not_Nil split: option.split)
  show \<open>sublist (requestBodySection details) (endpointBlock t p m details)\<close>
    unfolding endpointBlock_def by (intro sublist_appendI sublist_skip)
  show \<open>sublist
     (''\<newline>'' @ ''\<newline>'' @ ''                '' @ requestBodySection details @
      ''\<newline>'' @ ''\<newline>'' @ ''                <h3>Responses</h3>\<newline>'')
     (endpointBlock t p m details)\<close>
    unfolding endpointBlock_def by (intro sublist_hit7 sublist_skip)
  show \<open>requestBodySection details =
     (case operation.requestBody details of
        None \<Rightarrow> []
      | Some body \<Rightarrow>
          ''\<newline>                  <h3>Request Body</h3>\<newline>'' @
          ''                  <pre><code class="language-json">'' @
          escapeHtml (Some (JSON_stringify
            (case request_body.content body of
               None \<Rightarrow> JObj []
             | Some c \<Rightarrow>
                 (case map_of c ''application/json'' of
                    None \<Rightarrow> JObj []
                  | Some mt \<Rightarrow>
                      (case media_type.schema mt of
                         None \<Rightarrow> JObj []
                       | Some s \<Rightarrow> if jsonTruthy s then s else JObj []))))) @
          ''</code></pre>\<newline>                '')\<close>
    by (simp add: requestBodySection_def requestBodyBlock_def orJson_def jsonSchema_def
        split: option.split)
qed (simp add: requestBodyBlock_def orJson_def)

lemma stringify_object_schema:
  \<open>JSON_stringify (JObj [(''type'', JStr ''object'')]) =
     ''{\<newline>  "type": "object"\<newline>}''\<close>
  by code_simp

lemma stringify_empty_object: \<open>JSON_stringify (JObj []) = ''{}''\<close>
  by (simp add: JSON_stringify_def)

theorem request_body_block_iff_request_body_witness:
  \<open>requestBodySection emptyOperation = [] \<and>
   requestBodySection objectSchemaOperation =
     ''\<newline>                  <h3>Request Body</h3>\<newline>'' @
     ''                  <pre><code class="language-json">'' @
     ''{\<newline>  &quot;type&quot;: &quot;object&quot;\<newline>}'' @
     ''</code></pre>\<newline>                '' \<and>
   requestBodySection falseSchemaOperation =
     ''\<newline>                  <h3>Request Body</h3>\<newline>'' @
     ''                  <pre><code class="language-json">'' @
     ''{}'' @
     ''</code></pre>\<newline>                '' \<and>
   requestBodySection plainTextOperation = requestBodySection falseSchemaOperation\<close>
  using request_body_block_iff_request_body [of emptyOperation]
    request_body_block_iff_request_body [of objectSchemaOperation]
    request_body_block_iff_request_body [of falseSchemaOperation]
    request_body_block_iff_request_body [of plainTextOperation]
  by (simp add: emptyOperation_def objectSchemaOperation_def falseSchemaOperation_def
      plainTextOperation_def stringify_object_schema stringify_empty_object
      escapeHtml_one_pass escapeChar_def)

section \<open>Documents without paths\<close>

lemma fold_push:
  \<open>fold (\<lambda>(m, d) acc. acc @ [f m d]) ms acc = acc @ map (\<lambda>(m, d). f m d) ms\<close>
  by (induction ms arbitrary: acc) (simp_all add: case_prod_beta)

lemma fold_fold_push:
  \<open>fold (\<lambda>(p, ms) acc. fold (\<lambda>(m, d) acc. acc @ [f p m d]) ms acc) ps acc =
     acc @ concat (map (\<lambda>(p, ms). map (\<lambda>(m, d). f p m d) ms) ps)\<close>
  by (induction ps arbitrary: acc) (simp_all add: case_prod_beta fold_push)

lemma index_generateSearchIndex:
  \<open>index (generateSearchIndex s) =
     concat (map (\<lambda>(p, ms). map (\<lambda>(m, d). searchEntry p m d) ms) (pathEntries s))\<close>
  by (simp add: generateSearchIndex_def fold_fold_push)

lemma pathEntries_empty: \<open>spec.paths s = None \<or> spec.paths s = Some [] \<Longrightarrow> pathEntries s = []\<close>
  by (auto simp: pathEntries_def)

lemma generateHTML_prefix: \<open>prefix ''<!DOCTYPE html>'' (generateHTML s opts)\<close>
  by (simp add: generateHTML_def)

lemma generateHTML_suffix: \<open>suffix ''</html>'' (generateHTML s opts)\<close>
  unfolding generateHTML_def by (intro suffix_appendI) simp

lemma generateHTML_endpoints:
  \<open>sublist (''      <section class="endpoints">\<newline>'' @ ''        '' @
            endpointsSection (options.tryItOut opts) s @
            ''\<newline>'' @ ''      </section>\<newline>'')
     (generateHTML s opts)\<close>
  unfolding generateHTML_def by (intro sublist_hit5 sublist_skip)

text \<open>
  With no path to list, the page is the whole template of \<^verbatim>\<open>generateHTML\<close> with nothing
  in the endpoints section and nothing in the list of the table of contents.
\<close>

lemma generateHTML_no_paths:
  \<open>pathEntries s = [] \<Longrightarrow>
   generateHTML s opts =
     ''<!DOCTYPE html>\<newline>'' @
     ''<html lang="en">\<newline>'' @
     ''<head>\<newline>'' @
     ''  <meta charset="UTF-8">\<newline>'' @
     ''  <meta name="viewport" content="width=device-width, initial-scale=1.0">\<newline>'' @
     ''  <title>'' @
     escapeHtml (Some (options.title opts)) @
     ''</title>\<newline>'' @
     ''  '' @
     whenStr (options.favicon opts) faviconLink @
     ''\<newline>'' @
     ''  <link rel="stylesheet" href="/assets/style.css">\<newline>'' @
     ''  <link rel="stylesheet" href="https://cdnjs.cloudflare.com/ajax/libs/highlight.js/11.9.0/styles/github-dark.min.css">\<newline>'' @
     ''</head>\<newline>'' @
     ''<body class="theme-'' @
     options.theme opts @
     ''">\<newline>'' @
     ''  <div class="container">\<newline>'' @
     ''    <!-- Sidebar -->\<newline>'' @
     ''    <aside class="sidebar">\<newline>'' @
     ''      <div class="sidebar-header">\<newline>'' @
     ''        '' @
     whenStr (options.logo opts) logoImg @
     ''\<newline>'' @
     ''        <h1>'' @
     escapeHtml (Some (orStr (Option.bind (spec.info s) info.title) ''API Documentation'')) @
     ''</h1>\<newline>'' @
     ''        <p class="version">'' @
     escapeHtml (Some (orStr (Option.bind (spec.info s) info.version) ''1.0.0'')) @
     ''</p>\<newline>'' @
     ''      </div>\<newline>'' @
     ''\<newline>'' @
     ''      '' @
     (if options.toc opts then
        ''\<newline>'' @
        ''      <nav class="toc">\<newline>'' @
        ''        <h3>Endpoints</h3>\<newline>'' @
        ''        <ul>\<newline>'' @
        ''          '' @
        ''\<newline>'' @
        ''        </ul>\<newline>'' @
        ''      </nav>\<newline>'' @
        ''      ''
      else []) @
     ''\<newline>'' @
     ''\<newline>'' @
     ''      '' @
     (if options.search opts then searchBox else []) @
     ''\<newline>'' @
     ''    </aside>\<newline>'' @
     ''\<newline>'' @
     ''    <!-- Main Content -->\<newline>'' @
     ''    <main class="content">\<newline>'' @
     ''      <header class="header">\<newline>'' @
     ''        <h1>'' @
     escapeHtml (Some (options.title opts)) @
     ''</h1>\<newline>'' @
     ''        <p class="description">'' @
     escapeHtml (Some (orStr (Option.bind (spec.info s) info.description) [])) @
     ''</p>\<newline>'' @
     ''        '' @
     (case Option.bind (spec.info s) info.contact of None \<Rightarrow> [] | Some c \<Rightarrow> contactBlock c) @
     ''\<newline>'' @
     ''      </header>\<newline>'' @
     ''\<newline>'' @
     ''      <!-- Endpoints -->\<newline>'' @
     ''      <section class="endpoints">\<newline>'' @
     ''        '' @
     ''\<newline>'' @
     ''      </section>\<newline>'' @
     ''\<newline>'' @
     ''      '' @
     (case Option.bind (spec.components s) components.schemas of None \<Rightarrow> [] | Some schemas' \<Rightarrow> schemasSection schemas') @
     ''\<newline>'' @
     ''    </main>\<newline>'' @
     ''  </div>\<newline>'' @
     ''\<newline>'' @
     ''  <script src="https://cdnjs.cloudflare.com/ajax/libs/highlight.js/11.9.0/highlight.min.js"></script>\<newline>'' @
     ''  <script src="/assets/app.js"></script>\<newline>'' @
     ''</body>\<newline>'' @
     ''</html>''\<close>
  by (simp add: generateHTML_def tocNav_def endpointsSection_def)

text \<open>
  Claim C7: for a document whose \<^verbatim>\<open>paths\<close> mapping is absent or empty the renderer still
  returns the whole page: document type, head with title and stylesheets, body with
  sidebar, header, an endpoints section that holds no endpoint block, the schemas section
  if there are schemas, and the scripts, up to the closing \<^verbatim>\<open></html>\<close>.  The search
  index has no entry.
\<close>

theorem no_paths_empty_document:
  \<open>spec.paths s = None \<or> spec.paths s = Some [] \<Longrightarrow>
   endpointsSection t s = [] \<and>
   index (generateSearchIndex s) = [] \<and>
   generateSearchIndex s = \<lparr>index = []\<rparr> \<and>
   prefix ''<!DOCTYPE html>'' (generateHTML s opts) \<and>
   suffix ''</html>'' (generateHTML s opts) \<and>
   sublist ''      <section class="endpoints">\<newline>        \<newline>      </section>\<newline>''
     (generateHTML s opts) \<and>
   generateHTML s opts =
     ''<!DOCTYPE html>\<newline>'' @
     ''<html lang="en">\<newline>'' @
     ''<head>\<newline>'' @
     ''  <meta charset="UTF-8">\<newline>'' @
     ''  <meta name="viewport" content="width=device-width, initial-scale=1.0">\<newline>'' @
     ''  <title>'' @
     escapeHtml (Some (options.title opts)) @
     ''</title>\<newline>'' @
     ''  '' @
     whenStr (options.favicon opts) faviconLink @
     ''\<newline>'' @
     ''  <link rel="stylesheet" href="/assets/style.css">\<newline>'' @
     ''  <link rel="stylesheet" href="https://cdnjs.cloudflare.com/ajax/libs/highlight.js/11.9.0/styles/github-dark.min.css">\<newline>'' @
     ''</head>\<newline>'' @
     ''<body class="theme-'' @
     options.theme opts @
     ''">\<newline>'' @
     ''  <div class="container">\<newline>'' @
     ''    <!-- Sidebar -->\<newline>'' @
     ''    <aside class="sidebar">\<newline>'' @
     ''      <div class="sidebar-header">\<newline>'' @
     ''        '' @
     whenStr (options.logo opts) logoImg @
     ''\<newline>'' @
     ''        <h1>'' @
     escapeHtml (Some (orStr (Option.bind (spec.info s) info.title) ''API Documentation'')) @
     ''</h1>\<newline>'' @
     ''        <p class="version">'' @
     escapeHtml (Some (orStr (Option.bind (spec.info s) info.version) ''1.0.0'')) @
     ''</p>\<newline>'' @
     ''      </div>\<newline>'' @
     ''\<newline>'' @
     ''      '' @
     (if options.toc opts then
        ''\<newline>'' @
        ''      <nav class="toc">\<newline>'' @
        ''        <h3>Endpoints</h3>\<newline>'' @
        ''        <ul>\<newline>'' @
        ''          '' @
        ''\<newline>'' @
        ''        </ul>\<newline>'' @
        ''      </nav>\<newline>'' @
        ''      ''
      else []) @
     ''\<newline>'' @
     ''\<newline>'' @
     ''      '' @
     (if options.search opts then searchBox else []) @
     ''\<newline>'' @
     ''    </aside>\<newline>'' @
     ''\<newline>'' @
     ''    <!-- Main Content -->\<newline>'' @
     ''    <main class="content">\<newline>'' @
     ''      <header class="header">\<newline>'' @
     ''        <h1>'' @
     escapeHtml (Some (options.title opts)) @
     ''</h1>\<newline>'' @
     ''        <p class="description">'' @
     escapeHtml (Some (orStr (Option.bind (spec.info s) info.description) [])) @
     ''</p>\<newline>'' @
     ''        '' @
     (case Option.bind (spec.info s) info.contact of None \<Rightarrow> [] | Some c \<Rightarrow> contactBlock c) @
     ''\<newline>'' @
     ''      </header>\<newline>'' @
     ''\<newline>'' @
     ''      <!-- Endpoints -->\<newline>'' @
     ''      <section class="endpoints">\<newline>'' @
     ''        '' @
     ''\<newline>'' @
     ''      </section>\<newline>'' @
     ''\<newline>'' @
     ''      '' @
     (case Option.bind (spec.components s) components.schemas of None \<Rightarrow> [] | Some schemas' \<Rightarrow> schemasSection schemas') @
     ''\<newline>'' @
     ''    </main>\<newline>'' @
     ''  </div>\<newline>'' @
     ''\<newline>'' @
     ''  <script src="https://cdnjs.cloudflare.com/ajax/libs/highlight.js/11.9.0/highlight.min.js"></script>\<newline>'' @
     ''  <script src="/assets/app.js"></script>\<newline>'' @
     ''</body>\<newline>'' @
     ''</html>''\<close>
proof -
  assume \<open>spec.paths s = None \<or> spec.paths s = Some []\<close>
  then have empty: \<open>pathEntries s = []\<close>
    by (rule pathEntries_empty)
  have none: \<open>endpointsSection t s = []\<close> for t
    by (simp add: endpointsSection_def empty)
  have entries: \<open>index (generateSearchIndex s) = []\<close>
    by (simp add: index_generateSearchIndex empty)
  then have whole: \<open>generateSearchIndex s = \<lparr>index = []\<rparr>\<close>
    by (cases \<open>generateSearchIndex s\<close>) simp
  have \<open>sublist ''      <section class="endpoints">\<newline>        \<newline>      </section>\<newline>''
     (generateHTML s opts)\<close>
    using generateHTML_endpoints [of opts s] by (simp add: none)
  with none [of t] entries whole generateHTML_prefix [of s opts] generateHTML_suffix [of s opts]
    generateHTML_no_paths [OF empty, of opts]
  show ?thesis
    by - (intro conjI; assumption)
qed

theorem no_paths_empty_document_witness:
  \<open>(spec.paths emptySpec = None \<or> spec.paths emptySpec = Some []) \<and>
   endpointsSection False emptySpec = [] \<and>
   index (generateSearchIndex emptySpec) = [] \<and>
   sublist ''      <section class="endpoints">\<newline>        \<newline>      </section>\<newline>''
     (generateHTML emptySpec defaultOptions) \<and>
   generateHTML emptySpec defaultOptions =
     ''<!DOCTYPE html>\<newline>'' @
     ''<html lang="en">\<newline>'' @
     ''<head>\<newline>'' @
     ''  <meta charset="UTF-8">\<newline>'' @
     ''  <meta name="viewport" content="width=device-width, initial-scale=1.0">\<newline>'' @
     ''  <title>'' @
     ''API Documentation'' @
     ''</title>\<newline>'' @
     ''  '' @
     ''\<newline>'' @
     ''  <link rel="stylesheet" href="/assets/style.css">\<newline>'' @
     ''  <link rel="stylesheet" href="https://cdnjs.cloudflare.com/ajax/libs/highlight.js/11.9.0/styles/github-dark.min.css">\<newline>'' @
     ''</head>\<newline>'' @
     ''<body class="theme-'' @
     ''light'' @
     ''">\<newline>'' @
     ''  <div class="container">\<newline>'' @
     ''    <!-- Sidebar -->\<newline>'' @
     ''    <aside class="sidebar">\<newline>'' @
     ''      <div class="sidebar-header">\<newline>'' @
     ''        '' @
     ''\<newline>'' @
     ''        <h1>'' @
     ''API Documentation'' @
     ''</h1>\<newline>'' @
     ''        <p class="version">'' @
     ''1.0.0'' @
     ''</p>\<newline>'' @
     ''      </div>\<newline>'' @
     ''\<newline>'' @
     ''      '' @
     ''\<newline>'' @
     ''      <nav class="toc">\<newline>'' @
     ''        <h3>Endpoints</h3>\<newline>'' @
     ''        <ul>\<newline>'' @
     ''          '' @
     ''\<newline>'' @
     ''        </ul>\<newline>'' @
     ''      </nav>\<newline>'' @
     ''      '' @
     ''\<newline>'' @
     ''\<newline>'' @
     ''      '' @
     ''\<newline>'' @
     ''      <div class="search">\<newline>'' @
     ''        <input type="text" id="search-input" placeholder="Search endpoints...">\<newline>'' @
     ''        <div id="search-results"></div>\<newline>'' @
     ''      </div>\<newline>'' @
     ''      '' @
     ''\<newline>'' @
     ''    </aside>\<newline>'' @
     ''\<newline>'' @
     ''    <!-- Main Content -->\<newline>'' @
     ''    <main class="content">\<newline>'' @
     ''      <header class="header">\<newline>'' @
     ''        <h1>'' @
     ''API Documentation'' @
     ''</h1>\<newline>'' @
     ''        <p class="description">'' @
     ''</p>\<newline>'' @
     ''        '' @
     ''\<newline>'' @
     ''      </header>\<newline>'' @
     ''\<newline>'' @
     ''      <!-- Endpoints -->\<newline>'' @
     ''      <section class="endpoints">\<newline>'' @
     ''        '' @
     ''\<newline>'' @
     ''      </section>\<newline>'' @
     ''\<newline>'' @
     ''      '' @
     ''\<newline>'' @
     ''    </main>\<newline>'' @
     ''  </div>\<newline>'' @
     ''\<newline>'' @
     ''  <script src="https://cdnjs.cloudflare.com/ajax/libs/highlight.js/11.9.0/highlight.min.js"></script>\<newline>'' @
     ''  <script src="/assets/app.js"></script>\<newline>'' @
     ''</body>\<newline>'' @
     ''</html>''\<close>
proof -
  have absent: \<open>spec.paths emptySpec = None \<or> spec.paths emptySpec = Some []\<close>
    by (simp add: emptySpec_def)
  note page = no_paths_empty_document [OF absent, of False defaultOptions]
  have \<open>generateHTML emptySpec defaultOptions =
     ''<!DOCTYPE html>\<newline>'' @
     ''<html lang="en">\<newline>'' @
     ''<head>\<newline>'' @
     ''  <meta charset="UTF-8">\<newline>'' @
     ''  <meta name="viewport" content="width=device-width, initial-scale=1.0">\<newline>'' @
     ''  <title>'' @
     ''API Documentation'' @
     ''</title>\<newline>'' @
     ''  '' @
     ''\<newline>'' @
     ''  <link rel="stylesheet" href="/assets/style.css">\<newline>'' @
     ''  <link rel="stylesheet" href="https://cdnjs.cloudflare.com/ajax/libs/highlight.js/11.9.0/styles/github-dark.min.css">\<newline>'' @
     ''</head>\<newline>'' @
     ''<body class="theme-'' @
     ''light'' @
     ''">\<newline>'' @
     ''  <div class="container">\<newline>'' @
     ''    <!-- Sidebar -->\<newline>'' @
     ''    <aside class="sidebar">\<newline>'' @
     ''      <div class="sidebar-header">\<newline>'' @
     ''        '' @
     ''\<newline>'' @
     ''        <h1>'' @
     ''API Documentation'' @
     ''</h1>\<newline>'' @
     ''        <p class="version">'' @
     ''1.0.0'' @
     ''</p>\<newline>'' @
     ''      </div>\<newline>'' @
     ''\<newline>'' @
     ''      '' @
     ''\<newline>'' @
     ''      <nav class="toc">\<newline>'' @
     ''        <h3>Endpoints</h3>\<newline>'' @
     ''        <ul>\<newline>'' @
     ''          '' @
     ''\<newline>'' @
     ''        </ul>\<newline>'' @
     ''      </nav>\<newline>'' @
     ''      '' @
     ''\<newline>'' @
     ''\<newline>'' @
     ''      '' @
     ''\<newline>'' @
     ''      <div class="search">\<newline>'' @
     ''        <input type="text" id="search-input" placeholder="Search endpoints...">\<newline>'' @
     ''        <div id="search-results"></div>\<newline>'' @
     ''      </div>\<newline>'' @
     ''      '' @
     ''\<newline>'' @
     ''    </aside>\<newline>'' @
     ''\<newline>'' @
     ''    <!-- Main Content -->\<newline>'' @
     ''    <main class="content">\<newline>'' @
     ''      <header class="header">\<newline>'' @
     ''        <h1>'' @
     ''API Documentation'' @
     ''</h1>\<newline>'' @
     ''        <p class="description">'' @
     ''</p>\<newline>'' @
     ''        '' @
     ''\<newline>'' @
     ''      </header>\<newline>'' @
     ''\<newline>'' @
     ''      <!-- Endpoints -->\<newline>'' @
     ''      <section class="endpoints">\<newline>'' @
     ''        '' @
     ''\<newline>'' @
     ''      </section>\<newline>'' @
     ''\<newline>'' @
     ''      '' @
     ''\<newline>'' @
     ''    </main>\<newline>'' @
     ''  </div>\<newline>'' @
     ''\<newline>'' @
     ''  <script src="https://cdnjs.cloudflare.com/ajax/libs/highlight.js/11.9.0/highlight.min.js"></script>\<newline>'' @
     ''  <script src="/assets/app.js"></script>\<newline>'' @
     ''</body>\<newline>'' @
     ''</html>''\<close>
    by (subst page [THEN conjunct2, THEN conjunct2, THEN conjunct2, THEN conjunct2,
          THEN conjunct2, THEN conjunct2])
      (simp add: emptySpec_def defaultOptions_def whenStr_def orStr_def searchBox_def
        escapeHtml_one_pass escapeChar_def)
  with page absent show ?thesis
    by - (elim conjE, intro conjI; assumption)
qed

section \<open>The search index\<close>

lemma index_pairs:
  \<open>map (\<lambda>e. (search_entry.path e, search_entry.method e)) (index (generateSearchIndex s)) =
     pathMethodPairs s\<close>
  by (simp add: index_generateSearchIndex pathMethodPairs_def map_concat comp_def
      split_def searchEntry_def)

lemma distinct_pairs:
  \<open>distinct (map fst ps) \<Longrightarrow> list_all (\<lambda>(p, ms). distinct (map fst ms)) ps \<Longrightarrow>
   distinct (concat (map (\<lambda>(p, ms). map (\<lambda>(m, d). (p, m)) ms) ps))\<close>
proof (induction ps)
  case Nil
  then show ?case by simp
next
  case (Cons a ps)
  obtain p ms where a: \<open>a = (p, ms)\<close> by (cases a)
  from Cons.prems have p: \<open>p \<notin> fst ` set ps\<close> and ms: \<open>distinct (map fst ms)\<close>
    and rest: \<open>distinct (map fst ps)\<close> \<open>list_all (\<lambda>(p, ms). distinct (map fst ms)) ps\<close>
    by (simp_all add: a)
  have \<open>map (\<lambda>(m, d). (p, m)) ms = map (Pair p) (map fst ms)\<close>
    by (simp add: case_prod_beta)
  then have here: \<open>distinct (map (\<lambda>(m, d). (p, m)) ms)\<close>
    using ms by (simp add: distinct_map inj_on_def del: map_map)
  have disjoint: \<open>set (map (\<lambda>(m, d). (p, m)) ms) \<inter>
      set (concat (map (\<lambda>(p, ms). map (\<lambda>(m, d). (p, m)) ms) ps)) = {}\<close>
    using p by (auto simp: image_iff)
  show ?case
    using here disjoint Cons.IH [OF rest] by (simp add: a)
qed

text \<open>
  Claim C2 as it is worded fails for an empty summary: the summary is present, yet the title
  is the description.
\<close>

theorem search_index_title_counterexample:
  \<open>map search_entry.title
     (index (generateSearchIndex
        (emptySpec\<lparr>paths := Some [(''/a'',
           [(''get'', emptyOperation\<lparr>summary := Some '''', operation.description := Some ''d''\<rparr>)])]\<rparr>)))
   \<noteq> [specTitle ''/a'' (emptyOperation\<lparr>summary := Some '''', operation.description := Some ''d''\<rparr>)]\<close>
  by (simp add: index_generateSearchIndex pathEntries_def emptySpec_def emptyOperation_def
      searchEntry_def specTitle_def orStr_def orElse_def truthy_def)

text \<open>
  Claim C2, amended: the search index holds one entry for each (path, method) pair of the
  \<^verbatim>\<open>paths\<close> mapping, in the iteration order of the document, so that the pairs of the
  index are the pairs of the document and no pair occurs twice; the title of an entry is
  the summary if it is present and not empty, else the description if it is present and
  not empty, else the path; its description is the description of the operation if present,
  else the empty string; its slug is the slug of the path, a hyphen and the method.
\<close>

theorem search_index_round_trip:
  \<open>index (generateSearchIndex s) =
     concat (map (\<lambda>(p, ms). map (\<lambda>(m, d). searchEntry p m d) ms) (pathEntries s)) \<and>
   map (\<lambda>e. (search_entry.path e, search_entry.method e)) (index (generateSearchIndex s)) =
     pathMethodPairs s \<and>
   (distinctKeys s \<longrightarrow>
      distinct (map (\<lambda>e. (search_entry.path e, search_entry.method e))
        (index (generateSearchIndex s)))) \<and>
   searchEntry p m d =
     \<lparr>path = p, method = m,
      title =
        (case operation.summary d of
           Some x \<Rightarrow> if x \<noteq> [] then x
             else (case operation.description d of None \<Rightarrow> p | Some y \<Rightarrow> if y \<noteq> [] then y else p)
         | None \<Rightarrow> (case operation.description d of None \<Rightarrow> p | Some y \<Rightarrow> if y \<noteq> [] then y else p)),
      description = (case operation.description d of None \<Rightarrow> [] | Some y \<Rightarrow> y),
      slug = slugify p @ ''-'' @ m\<rparr>\<close>
proof (intro conjI impI)
  show \<open>index (generateSearchIndex s) =
     concat (map (\<lambda>(p, ms). map (\<lambda>(m, d). searchEntry p m d) ms) (pathEntries s))\<close>
    by (rule index_generateSearchIndex)
  show \<open>map (\<lambda>e. (search_entry.path e, search_entry.method e)) (index (generateSearchIndex s)) =
     pathMethodPairs s\<close>
    by (rule index_pairs)
  show \<open>distinct (map (\<lambda>e. (search_entry.path e, search_entry.method e))
        (index (generateSearchIndex s)))\<close> if \<open>distinctKeys s\<close>
    using that distinct_pairs [of \<open>pathEntries s\<close>]
    by (simp only: index_pairs pathMethodPairs_def distinctKeys_def)
  show \<open>searchEntry p m d =
     \<lparr>path = p, method = m,
      title =
        (case operation.summary d of
           Some x \<Rightarrow> if x \<noteq> [] then x
             else (case operation.description d of None \<Rightarrow> p | Some y \<Rightarrow> if y \<noteq> [] then y else p)
         | None \<Rightarrow> (case operation.description d of None \<Rightarrow> p | Some y \<Rightarrow> if y \<noteq> [] then y else p)),
      description = (case operation.description d of None \<Rightarrow> [] | Some y \<Rightarrow> y),
      slug = slugify p @ ''-'' @ m\<rparr>\<close>
    by (simp add: searchEntry_def orStr_def orElse_def truthy_def split: option.split)
qed

theorem search_index_round_trip_witness:
  \<open>distinctKeys exampleSpec \<and>
   map (\<lambda>e. (search_entry.path e, search_entry.method e)) (index (generateSearchIndex exampleSpec)) =
     [(''/users'', ''get''), (''/users'', ''post''), (''/pets'', ''get'')] \<and>
   distinct (map (\<lambda>e. (search_entry.path e, search_entry.method e))
     (index (generateSearchIndex exampleSpec)))\<close>
proof -
  have keys: \<open>distinctKeys exampleSpec\<close>
    by (simp add: distinctKeys_def pathEntries_def exampleSpec_def emptySpec_def)
  have pairs: \<open>pathMethodPairs exampleSpec =
      [(''/users'', ''get''), (''/users'', ''post''), (''/pets'', ''get'')]\<close>
    by (simp add: pathMethodPairs_def pathEntries_def exampleSpec_def emptySpec_def)
  from search_index_round_trip [of exampleSpec] keys pairs show ?thesis
    by metis
qed

section \<open>The stylesheet\<close>

lemma colorsLookup_own:
  \<open>colorsLookup ''light'' = Some (Table light)\<close>
  \<open>colorsLookup ''dark'' = Some (Table dark)\<close>
  \<open>colorsLookup ''dracula'' = Some (Table dracula)\<close>
  \<open>colorsLookup ''github'' = Some (Table github)\<close>
  by (simp_all add: colorsLookup_def colors_def)

text \<open>Each of the four names selects its own table.\<close>

lemma getCSS_own:
  \<open>getCSS ''light'' = css (Table light)\<close>
  \<open>getCSS ''dark'' = css (Table dark)\<close>
  \<open>getCSS ''dracula'' = css (Table dracula)\<close>
  \<open>getCSS ''github'' = css (Table github)\<close>
  by (simp_all add: getCSS_def colorsLookup_own)

text \<open>
  A name that is neither one of the four nor the name of an inherited member falls back to
  the light table.
\<close>

lemma getCSS_fallback:
  \<open>t \<notin> set (map fst colors) \<Longrightarrow> t \<notin> set objectPrototypeKeys \<Longrightarrow> getCSS t = getCSS ''light''\<close>
proof -
  assume own: \<open>t \<notin> set (map fst colors)\<close> and inherited: \<open>t \<notin> set objectPrototypeKeys\<close>
  from own have \<open>map_of colors t = None\<close>
    by (simp add: map_of_eq_None_iff)
  with inherited have \<open>colorsLookup t = None\<close>
    by (simp add: colorsLookup_def)
  then show ?thesis
    by (simp add: getCSS_def colorsLookup_own)
qed

lemma getCSS_inherited: \<open>getCSS ''constructor'' = css Inherited\<close>
  by (simp add: getCSS_def colorsLookup_def colors_def objectPrototypeKeys_def)

lemma css_differs: \<open>css Inherited \<noteq> css (Table light)\<close>
  by (simp add: css_def light_def)

text \<open>
  Claim C5: for every theme name outside light, dark, dracula and github the stylesheet is
  the one of the light theme.  The fallback of line 285 misses the names that
  \<^verbatim>\<open>colors\<close> inherits: for the theme \<^verbatim>\<open>constructor\<close> the entry found is a function, the
  fallback is not taken, and every colour of the stylesheet is the text \<^verbatim>\<open>undefined\<close>.
\<close>

theorem getCSS_constructor_not_light:
  \<open>''constructor'' \<notin> set [''light'', ''dark'', ''dracula'', ''github''] \<and>
   getCSS ''constructor'' \<noteq> getCSS ''light'' \<and>
   sublist ''background: undefined; color: undefined;'' (getCSS ''constructor'')\<close>
proof (intro conjI)
  show \<open>getCSS ''constructor'' \<noteq> getCSS ''light''\<close>
    by (simp only: getCSS_inherited getCSS_own css_differs not_False_eq_True)
  have \<open>prefix
      ((''\<newline>'' @ ''* { box-sizing: border-box; margin: 0; padding: 0; }\<newline>'' @
        ''body { font-family: -apple-system, BlinkMacSystemFont, 'Segoe UI', Roboto, sans-serif; '') @
       ''background: undefined; color: undefined;'')
      (css Inherited)\<close>
    by (simp add: css_def)
  then show \<open>sublist ''background: undefined; color: undefined;'' (getCSS ''constructor'')\<close>
    unfolding getCSS_inherited by (rule sublist_after_prefix)
qed simp

section \<open>The loader\<close>

lemma split_not_Nil: \<open>split sep s \<noteq> []\<close>
  by (induction s) (auto split: list.split)

lemma split_no_separator: \<open>sep \<notin> set s \<Longrightarrow> split sep s = [s]\<close>
  by (induction s) auto

lemma split_append:
  \<open>split sep (stem @ sep # e) = split sep stem @ split sep e\<close>
proof (induction stem)
  case Nil
  show ?case by simp
next
  case (Cons c stem)
  then show ?case
    by (cases \<open>split sep stem\<close>) (simp_all add: split_not_Nil)
qed

text \<open>The extension is what follows the last dot, and the whole path when it has no dot.\<close>

lemma extension_after_last_dot:
  \<open>CHR ''.'' \<notin> set e \<Longrightarrow> extension (stem @ CHR ''.'' # e) = Some e\<close>
  by (simp add: extension_def pop_def split_not_Nil split_append split_no_separator)

lemma extension_without_dot: \<open>CHR ''.'' \<notin> set p \<Longrightarrow> extension p = Some p\<close>
  by (simp add: extension_def pop_def split_no_separator)

text \<open>
  Claim C9: \<^verbatim>\<open>parseSpec\<close> chooses the decoder by the last dot-separated segment of the
  path alone: \<^verbatim>\<open>yaml\<close> and \<^verbatim>\<open>yml\<close> select the YAML decoder, anything else the JSON
  decoder.  Once the file is read, it fails with a decode error exactly when the chosen
  decoder rejects the content, and otherwise returns what that decoder produced.
\<close>

theorem parseSpec_decoder_selection:
  \<open>(CHR ''.'' \<notin> set e \<longrightarrow> isYaml (stem @ ''.'' @ e) = (e = ''yaml'' \<or> e = ''yml'')) \<and>
   (CHR ''.'' \<notin> set p \<longrightarrow> isYaml p = (p = ''yaml'' \<or> p = ''yml'')) \<and>
   (isYaml p \<longrightarrow> parseSpec readFile yaml_parse JSON_parse p =
      (case readFile p of None \<Rightarrow> Inl NotFoundError
       | Some c \<Rightarrow> (case yaml_parse c of None \<Rightarrow> Inl DecodeError | Some t \<Rightarrow> Inr t))) \<and>
   (\<not> isYaml p \<longrightarrow> parseSpec readFile yaml_parse JSON_parse p =
      (case readFile p of None \<Rightarrow> Inl NotFoundError
       | Some c \<Rightarrow> (case JSON_parse c of None \<Rightarrow> Inl DecodeError | Some t \<Rightarrow> Inr t))) \<and>
   (readFile p = Some c \<longrightarrow>
      (parseSpec readFile yaml_parse JSON_parse p = Inl DecodeError) =
        ((if isYaml p then yaml_parse c else JSON_parse c) = None)) \<and>
   (readFile p = Some c \<longrightarrow>
      (parseSpec readFile yaml_parse JSON_parse p = Inr t) =
        ((if isYaml p then yaml_parse c else JSON_parse c) = Some t))\<close>
proof (intro conjI impI)
  show \<open>isYaml (stem @ ''.'' @ e) = (e = ''yaml'' \<or> e = ''yml'')\<close> if \<open>CHR ''.'' \<notin> set e\<close>
    using that by (simp add: isYaml_def extension_after_last_dot)
  show \<open>isYaml p = (p = ''yaml'' \<or> p = ''yml'')\<close> if \<open>CHR ''.'' \<notin> set p\<close>
    using that by (simp add: isYaml_def extension_without_dot)
qed (simp_all add: parseSpec_def split: option.split)

theorem parseSpec_decoder_selection_witness:
  \<open>CHR ''.'' \<notin> set ''yaml'' \<and> isYaml ''docs/api.v1.yaml'' \<and> \<not> isYaml ''api.yaml.json'' \<and>
   parseSpec (\<lambda>p. Some ''a: 1'') (\<lambda>c. Some True) (\<lambda>c. None) ''docs/api.v1.yaml'' = Inr True \<and>
   parseSpec (\<lambda>p. Some ''a: 1'') (\<lambda>c. Some True) (\<lambda>c. None) ''api.yaml.json'' = Inl DecodeError\<close>
proof -
  have dot: \<open>CHR ''.'' \<notin> set ''yaml''\<close> \<open>CHR ''.'' \<notin> set ''json''\<close>
    by simp_all
  have yaml: \<open>isYaml ''docs/api.v1.yaml''\<close>
    using parseSpec_decoder_selection [of \<open>''yaml''\<close> \<open>''docs/api.v1''\<close>, THEN conjunct1] dot by simp
  have json: \<open>\<not> isYaml ''api.yaml.json''\<close>
    using parseSpec_decoder_selection [of \<open>''json''\<close> \<open>''api.yaml''\<close>, THEN conjunct1] dot by simp
  from parseSpec_decoder_selection
      [of _ _ \<open>''docs/api.v1.yaml''\<close> \<open>\<lambda>p. Some ''a: 1''\<close> \<open>\<lambda>c. Some True\<close> \<open>\<lambda>c. None\<close> \<open>''a: 1''\<close> True]
    parseSpec_decoder_selection
      [of _ _ \<open>''api.yaml.json''\<close> \<open>\<lambda>p. Some ''a: 1''\<close> \<open>\<lambda>c. Some True\<close> \<open>\<lambda>c. None\<close> \<open>''a: 1''\<close> True]
    dot yaml json
  show ?thesis
    by simp
qed

section \<open>Validation\<close>

text \<open>
  Claim C8 as it is worded fails for an empty version string: \<^verbatim>\<open>openapi\<close> is present, yet
  the first error is reported.
\<close>

theorem validateSpec_empty_version_counterexample:
  \<open>validation.errors (validateSpec (emptySpec\<lparr>openapi := Some '''',
       info := Some \<lparr>info.title = None, version = None, info.description = None, contact = None\<rparr>,
       paths := Some []\<rparr>))
   \<noteq> specErrors (emptySpec\<lparr>openapi := Some '''',
       info := Some \<lparr>info.title = None, version = None, info.description = None, contact = None\<rparr>,
       paths := Some []\<rparr>)\<close>
  by (simp add: validateSpec_def specErrors_def emptySpec_def truthy_def)

text \<open>
  Claim C8, amended: \<^verbatim>\<open>validateSpec\<close> reports the document valid exactly when its error
  list is empty, and pushes one error for each of three checks: neither \<^verbatim>\<open>openapi\<close> nor
  \<^verbatim>\<open>swagger\<close> is present with a non-empty value; \<^verbatim>\<open>info\<close> is absent; \<^verbatim>\<open>paths\<close> is
  absent.  A document lacking all of them gets three errors and is invalid; a document
  holding only \<^verbatim>\<open>paths\<close> gets two.
\<close>

theorem validateSpec_checks:
  \<open>validation.valid (validateSpec s) = (validation.errors (validateSpec s) = []) \<and>
   validation.errors (validateSpec s) =
     (if \<not> truthy (spec.openapi s) \<and> \<not> truthy (spec.swagger s)
      then [''Missing openapi or swagger version''] else []) @
     (if spec.info s = None then [''Missing info object''] else []) @
     (if spec.paths s = None then [''Missing paths object''] else []) \<and>
   (spec.openapi s = None \<and> spec.swagger s = None \<and> spec.info s = None \<and> spec.paths s = None \<longrightarrow>
      length (validation.errors (validateSpec s)) = 3 \<and> \<not> validation.valid (validateSpec s)) \<and>
   (spec.openapi s = None \<and> spec.swagger s = None \<and> spec.info s = None \<and> spec.paths s \<noteq> None \<longrightarrow>
      length (validation.errors (validateSpec s)) = 2 \<and> \<not> validation.valid (validateSpec s))\<close>
  by (simp add: validateSpec_def Let_def truthy_def)

theorem validateSpec_checks_witness:
  \<open>length (validation.errors (validateSpec emptySpec)) = 3 \<and>
   \<not> validation.valid (validateSpec emptySpec) \<and>
   length (validation.errors (validateSpec (emptySpec\<lparr>paths := Some []\<rparr>))) = 2\<close>
  using validateSpec_checks [of emptySpec] validateSpec_checks [of \<open>emptySpec\<lparr>paths := Some []\<rparr>\<close>]
  by (simp add: emptySpec_def truthy_def)

end
